theory Spec2Isabelle
  imports Complex_Main
begin

section \<open>Payment webhook reconciliation of the course mini-app backend\<close>

text \<open>
  Shallow embedding of \<^verbatim>\<open>server/src/controllers/admin.controller.ts\<close> (the PayPal part:
  \<^verbatim>\<open>handlePayPalWebhook\<close>, \<^verbatim>\<open>handleCheckoutOrderApproved\<close>,
  \<^verbatim>\<open>handlePaymentCaptureCompleted\<close>, \<^verbatim>\<open>handlePaymentCaptureDenied\<close>,
  \<^verbatim>\<open>handlePaymentCaptureRefunded\<close>, \<^verbatim>\<open>createPurchaseOrder\<close>,
  \<^verbatim>\<open>resolvePaypalCurrency\<close>) and of \<^verbatim>\<open>server/src/utils/currency.ts\<close>
  (\<^verbatim>\<open>normalizeCurrency\<close>).

  Conventions of the embedding.
  \<^item> A JavaScript string is a \<open>string\<close>, a list of code units below 256. On such
    strings white space, signs and digits are read as JavaScript reads them. Upper-casing
    maps the letters \<^verbatim>\<open>a\<close> to \<^verbatim>\<open>z\<close> only; JavaScript also maps the letters
    U+00B5 and U+00DF to U+00FF (two of them to code units above 255), so a currency is
    normalised exactly when it has none of these letters, as every ISO code does.
  \<^item> A JavaScript number that holds an id is a \<open>jsnum\<close>: an integer-valued double,
    an infinity or NaN.
  \<^item> The relational store is a pair of tables, each a list of rows in insertion order.
  \<^item> Everything outside the controller (provider API, file system, metadata loader,
    configuration file, notification courier) is a field of the environment record
    \<open>env\<close>; a call that may throw returns \<open>exn + 'a\<close>.
  \<^item> Calls on collaborators that change nothing in the store (cache deletion,
    notifications, provider calls) are appended to the \<open>effects\<close> log of the state.
  \<^item> A query of the store does not fail. A handler call takes one time stamp \<open>now\<close>,
    the value of \<^verbatim>\<open>datetime('now')\<close> and of the column default during the call.
  \<^item> Logging is not modelled.
\<close>

subsection \<open>Strings\<close>

text \<open>The decimal digits, as \<^verbatim>\<open>\d\<close> of a JavaScript regular expression reads them.\<close>

definition digit_table :: "(char \<times> nat) list" where
  "digit_table = zip ''0123456789'' [0 ..< 10]"

definition digit_of :: "char \<Rightarrow> nat option" where
  "digit_of c = map_of digit_table c"

definition is_digit :: "char \<Rightarrow> bool" where
  "is_digit c = (digit_of c \<noteq> None)"

definition digit_val :: "char \<Rightarrow> nat" where
  "digit_val c = (case digit_of c of Some d \<Rightarrow> d | None \<Rightarrow> 0)"

text \<open>
  White space and line terminators below 256, as \<^verbatim>\<open>parseInt\<close> and \<^verbatim>\<open>trim\<close> skip
  them: tab, line feed, vertical tab, form feed, carriage return, space and the no-break
  space U+00A0.
\<close>

definition is_space :: "char \<Rightarrow> bool" where
  "is_space c = (c = CHR 0x09 \<or> c = CHR 0x0A \<or> c = CHR 0x0B \<or> c = CHR 0x0C
                 \<or> c = CHR 0x0D \<or> c = CHR 0x20 \<or> c = CHR 0xA0)"

text \<open>\<^verbatim>\<open>String.prototype.trim\<close>: white space is removed at both ends.\<close>

definition trim :: "string \<Rightarrow> string" where
  "trim s = rev (dropWhile is_space (rev (dropWhile is_space s)))"

text \<open>
  \<^verbatim>\<open>String.prototype.toUpperCase\<close> on the letters \<^verbatim>\<open>a\<close> to \<^verbatim>\<open>z\<close>; every other
  code unit is kept.
\<close>

definition upper_table :: "(char \<times> char) list" where
  "upper_table = zip ''abcdefghijklmnopqrstuvwxyz'' ''ABCDEFGHIJKLMNOPQRSTUVWXYZ''"

definition upper_char :: "char \<Rightarrow> char" where
  "upper_char c = (case map_of upper_table c of Some u \<Rightarrow> u | None \<Rightarrow> c)"

definition toUpperCase :: "string \<Rightarrow> string" where
  "toUpperCase s = map upper_char s"

subsection \<open>Numbers\<close>

datatype jsnum = Fin int | PosInf | NegInf | NaN

text \<open>The number of binary digits of a natural number.\<close>

fun bitlen :: "nat \<Rightarrow> nat" where
  "bitlen n = (if n = 0 then 0 else Suc (bitlen (n div 2)))"

declare bitlen.simps [simp del]

text \<open>
  The double nearest to a natural number (ties to even): exact up to 53 binary digits
  (below \<open>2 ^ 53\<close>), and infinite when the rounded value needs more than 1024
  (from \<open>2 ^ 1024\<close> on).
\<close>

definition round_double :: "nat \<Rightarrow> jsnum" where
  "round_double n =
     (if bitlen n \<le> 53 then Fin (int n)
      else let e = bitlen n - 53;
               q = n div 2 ^ e;
               r = n mod 2 ^ e;
               h = 2 ^ (e - 1);
               q' = (if h < r \<or> (r = h \<and> odd q) then q + 1 else q);
               m = q' * 2 ^ e
           in if 1024 < bitlen m then PosInf else Fin (int m))"

definition dec_value :: "string \<Rightarrow> nat" where
  "dec_value ds = foldl (\<lambda>a c. 10 * a + digit_val c) 0 ds"

definition negate :: "jsnum \<Rightarrow> jsnum" where
  "negate x = (case x of Fin i \<Rightarrow> Fin (- i) | PosInf \<Rightarrow> NegInf | NegInf \<Rightarrow> PosInf | NaN \<Rightarrow> NaN)"

text \<open>
  \<^verbatim>\<open>parseInt(s, 10)\<close>: leading white space is skipped, a sign is read, then the longest
  run of digits; no digit gives NaN. The value of the run is rounded to a double. (The
  language lets an implementation replace the digits after the twentieth by zeros; the
  properties below only use values below \<open>2 ^ 53\<close>, which have at most 16 digits.)
\<close>

definition parseInt10 :: "string \<Rightarrow> jsnum" where
  "parseInt10 s =
     (let t = dropWhile is_space s;
          neg = (t \<noteq> [] \<and> hd t = CHR ''-'');
          u = (if t \<noteq> [] \<and> (hd t = CHR ''-'' \<or> hd t = CHR ''+'') then tl t else t);
          ds = takeWhile is_digit u
      in if ds = [] then NaN
         else if neg then negate (round_double (dec_value ds))
         else round_double (dec_value ds))"

text \<open>\<^verbatim>\<open>!n || isNaN(n)\<close> for a number \<open>n\<close>: zero and NaN are falsy.\<close>

definition falsy_num :: "jsnum \<Rightarrow> bool" where
  "falsy_num n = (n = Fin 0 \<or> n = NaN)"

subsection \<open>The custom id\<close>

text \<open>A literal piece of a pattern: the rest of the subject after it, if the subject starts with it.\<close>

fun strip_prefix :: "string \<Rightarrow> string \<Rightarrow> string option" where
  "strip_prefix [] s = Some s"
| "strip_prefix (p # ps) [] = None"
| "strip_prefix (p # ps) (c # cs) = (if p = c then strip_prefix ps cs else None)"

text \<open>
  \<^verbatim>\<open>/user_(\d+)_course_(\d+)/\<close> tried at the start of the subject. Both groups are
  greedy; giving back digits never helps, since the character after a shorter run is a
  digit and the pattern needs \<^verbatim>\<open>_\<close> after the first group and nothing after the second.
\<close>

definition match_here :: "string \<Rightarrow> (string \<times> string) option" where
  "match_here s =
     (case strip_prefix ''user_'' s of
        None \<Rightarrow> None
      | Some r1 \<Rightarrow>
          let d1 = takeWhile is_digit r1; r2 = dropWhile is_digit r1
          in if d1 = [] then None
             else (case strip_prefix ''_course_'' r2 of
                     None \<Rightarrow> None
                   | Some r3 \<Rightarrow>
                       let d2 = takeWhile is_digit r3
                       in if d2 = [] then None else Some (d1, d2)))"

text \<open>
  \<^verbatim>\<open>customId.match(/user_(\d+)_course_(\d+)/)\<close>: the pattern has no anchors, so the
  match is looked for at every position of the subject, from the left.
\<close>

fun custom_id_match :: "string \<Rightarrow> (string \<times> string) option" where
  "custom_id_match [] = match_here []"
| "custom_id_match (c # cs) =
     (case match_here (c # cs) of
        Some m \<Rightarrow> Some m
      | None \<Rightarrow> custom_id_match cs)"

text \<open>
  The first lines of the three capture handlers: the custom id is read, an absent or
  empty one is dropped, the pattern is matched and both groups go through
  \<^verbatim>\<open>parseInt(_, 10)\<close>.
\<close>

definition parse_custom_id :: "string option \<Rightarrow> (jsnum \<times> jsnum) option" where
  "parse_custom_id customId =
     (case customId of
        None \<Rightarrow> None
      | Some cid \<Rightarrow>
          if cid = [] then None
          else (case custom_id_match cid of
                  None \<Rightarrow> None
                | Some (m1, m2) \<Rightarrow> Some (parseInt10 m1, parseInt10 m2)))"

subsection \<open>Events, requests and responses\<close>

text \<open>\<^verbatim>\<open>createError(message, status)\<close> and a plain \<^verbatim>\<open>Error\<close>.\<close>

datatype exn = HttpError string nat | Error string

record amount_obj =
  currency_code :: string
  amount_value :: string

text \<open>
  The resource of a \<^verbatim>\<open>PayPalWebhookEvent\<close>. Field \<open>order_id\<close> is
  \<^verbatim>\<open>supplementary_data?.related_ids?.order_id\<close>, absent when any object on the path is.
\<close>

record resource =
  resource_id :: string
  resource_status :: "string option"
  amount :: "amount_obj option"
  custom_id :: "string option"
  order_id :: "string option"

record event =
  event_id :: string
  event_type :: string
  resource :: resource

record paypal_headers =
  auth_algo :: "string option"
  cert_url :: "string option"
  transmission_id :: "string option"
  transmission_sig :: "string option"
  transmission_time :: "string option"

record webhook_request =
  headers :: paypal_headers
  body :: event

datatype response_body =
    Received
  | ReceivedWithError string
  | ErrorBody string

record response =
  resp_status :: nat
  resp_body :: response_body

subsection \<open>The store\<close>

text \<open>The amount column receives the provider's decimal text or the course price.\<close>

datatype amount_val = AmountText string | AmountNumber rat

record uc_row =
  uc_id :: nat
  uc_user_id :: jsnum
  uc_course_id :: jsnum
  purchased_at :: nat

record tx_row =
  tx_id :: nat
  tx_user_id :: jsnum
  tx_course_id :: jsnum
  payment_id :: string
  tx_amount :: amount_val
  tx_currency :: string
  tx_status :: string
  tx_type :: string
  notification_message_id :: "nat option"
  created_at :: nat

text \<open>The cache keys \<^verbatim>\<open>CACHE_KEYS.USER(id)\<close> and \<^verbatim>\<open>CACHE_KEYS.USER_COURSES(id)\<close>.\<close>

datatype cache_key = USER jsnum | USER_COURSES jsnum

text \<open>
  The argument of \<^verbatim>\<open>paypalService.createOrder\<close>. \<open>order_amount\<close> is the price that
  the source formats with \<^verbatim>\<open>toFixed(2)\<close>; \<open>order_custom_id\<close> holds the two numbers
  that the source writes into the template \<^verbatim>\<open>user_${user.id}_course_${courseId}\<close>.
\<close>

record order_request =
  order_amount :: rat
  order_currency :: string
  description :: string
  order_custom_id :: "jsnum \<times> jsnum"
  return_url :: string
  cancel_url :: string

record order =
  orderId :: string
  approveUrl :: string
  paid_amount :: string
  paid_currency :: string

record capture_result =
  captureId :: string
  captured_amount :: string
  captured_currency :: string

datatype effect =
    CacheDel cache_key
  | ConfirmationNotification jsnum string "nat option"
  | ProcessingNotification jsnum string
  | CreateOrder order_request
  | CaptureOrder string

record state =
  user_courses :: "uc_row list"
  transactions :: "tx_row list"
  effects :: "effect list"

subsection \<open>The environment\<close>

record course_meta =
  title :: string
  price :: rat
  meta_currency :: "string option"

text \<open>
  Of the application configuration: \<^verbatim>\<open>app.defaultCurrency\<close> and
  \<^verbatim>\<open>payments?.paypal?.currency\<close>.
\<close>

record app_config =
  defaultCurrency :: string
  paypal_currency :: "string option"

text \<open>
  \<open>stat_course_dir c\<close> tells whether \<^verbatim>\<open>stat(path.join(COURSES_DIR, c.toString()))\<close>
  succeeds. \<open>loadAppConfig\<close> throws on an unreadable or invalid configuration file.
  \<open>loadCourseMetadata c\<close> is the value that the loader returns for course \<open>c\<close>,
  \<^verbatim>\<open>null\<close> when the configuration lists no such course. The loader reads the
  configuration itself, so it returns only when \<open>loadAppConfig\<close> does; when that
  throws, a handler ends with the exception and an unchanged state, as it does here at
  \<^verbatim>\<open>resolvePaypalCurrency\<close>.
\<close>

record env =
  webhookId :: string
  nodeEnv :: "string option"
  frontendUrl :: string
  verifyWebhookSignature :: "paypal_headers \<Rightarrow> event \<Rightarrow> string \<Rightarrow> exn + bool"
  captureOrder :: "string \<Rightarrow> exn + capture_result"
  createOrder :: "order_request \<Rightarrow> exn + order"
  stat_course_dir :: "jsnum \<Rightarrow> bool"
  loadCourseMetadata :: "jsnum \<Rightarrow> course_meta option"
  loadAppConfig :: "exn + app_config"
  sendPurchaseProcessingNotification :: "jsnum \<Rightarrow> string \<Rightarrow> exn + nat option"

subsection \<open>Queries\<close>

text \<open>A new row takes an id above every id of its table.\<close>

definition fresh_id :: "nat list \<Rightarrow> nat" where
  "fresh_id ids = Suc (foldr max ids 0)"

text \<open>\<^verbatim>\<open>SELECT id FROM user_courses WHERE user_id = ? AND course_id = ?\<close>\<close>

definition select_user_course :: "jsnum \<Rightarrow> jsnum \<Rightarrow> state \<Rightarrow> uc_row list" where
  "select_user_course u c s =
     filter (\<lambda>r. uc_user_id r = u \<and> uc_course_id r = c) (user_courses s)"

text \<open>\<^verbatim>\<open>INSERT INTO user_courses (user_id, course_id, purchased_at) VALUES (?, ?, datetime('now'))\<close>\<close>

definition insert_user_course :: "jsnum \<Rightarrow> jsnum \<Rightarrow> nat \<Rightarrow> state \<Rightarrow> state" where
  "insert_user_course u c now s =
     s\<lparr>user_courses := user_courses s @
          [\<lparr>uc_id = fresh_id (map uc_id (user_courses s)),
            uc_user_id = u, uc_course_id = c, purchased_at = now\<rparr>]\<rparr>"

text \<open>\<^verbatim>\<open>DELETE FROM user_courses WHERE user_id = ? AND course_id = ?\<close>\<close>

definition delete_user_course :: "jsnum \<Rightarrow> jsnum \<Rightarrow> state \<Rightarrow> state" where
  "delete_user_course u c s =
     s\<lparr>user_courses :=
          filter (\<lambda>r. \<not> (uc_user_id r = u \<and> uc_course_id r = c)) (user_courses s)\<rparr>"

text \<open>
  \<^verbatim>\<open>ORDER BY created_at DESC LIMIT 1\<close>: a row with the greatest time stamp; among
  equal time stamps the row stored first.
\<close>

fun latest :: "tx_row list \<Rightarrow> tx_row option" where
  "latest [] = None"
| "latest (r # rs) =
     (case latest rs of
        None \<Rightarrow> Some r
      | Some r' \<Rightarrow> if created_at r < created_at r' then Some r' else Some r)"

text \<open>
  \<^verbatim>\<open>SELECT id, notification_message_id FROM transactions WHERE user_id = ? AND
  course_id = ? AND status = 'pending' AND payment_id = ? ORDER BY created_at DESC LIMIT 1\<close>
\<close>

definition is_pending_for :: "jsnum \<Rightarrow> jsnum \<Rightarrow> string \<Rightarrow> tx_row \<Rightarrow> bool" where
  "is_pending_for u c oid r =
     (tx_user_id r = u \<and> tx_course_id r = c \<and> tx_status r = ''pending'' \<and> payment_id r = oid)"

definition select_pending :: "jsnum \<Rightarrow> jsnum \<Rightarrow> string \<Rightarrow> state \<Rightarrow> tx_row option" where
  "select_pending u c oid s = latest (filter (is_pending_for u c oid) (transactions s))"

text \<open>
  \<^verbatim>\<open>UPDATE transactions SET status = ?, payment_id = ?, amount = ?, currency = ? WHERE id = ?\<close>
\<close>

definition update_transaction ::
  "string \<Rightarrow> string \<Rightarrow> amount_val \<Rightarrow> string \<Rightarrow> nat \<Rightarrow> state \<Rightarrow> state" where
  "update_transaction st pid amt cur i s =
     s\<lparr>transactions :=
          map (\<lambda>r. if tx_id r = i
                    then r\<lparr>tx_status := st, payment_id := pid, tx_amount := amt, tx_currency := cur\<rparr>
                    else r)
              (transactions s)\<rparr>"

text \<open>
  \<^verbatim>\<open>INSERT INTO transactions (user_id, course_id, payment_id, amount, currency, status,
  type, notification_message_id, created_at) VALUES (...)\<close>
\<close>

definition insert_transaction ::
  "jsnum \<Rightarrow> jsnum \<Rightarrow> string \<Rightarrow> amount_val \<Rightarrow> string \<Rightarrow> string \<Rightarrow> string \<Rightarrow> nat option
     \<Rightarrow> nat \<Rightarrow> state \<Rightarrow> state" where
  "insert_transaction u c pid amt cur st ty msg now s =
     s\<lparr>transactions := transactions s @
          [\<lparr>tx_id = fresh_id (map tx_id (transactions s)),
            tx_user_id = u, tx_course_id = c, payment_id = pid, tx_amount = amt,
            tx_currency = cur, tx_status = st, tx_type = ty,
            notification_message_id = msg, created_at = now\<rparr>]\<rparr>"

definition log_effect :: "effect \<Rightarrow> state \<Rightarrow> state" where
  "log_effect e s = s\<lparr>effects := effects s @ [e]\<rparr>"

subsection \<open>Currencies\<close>

text \<open>\<^verbatim>\<open>normalizeCurrency(value, fallback)\<close> of \<^verbatim>\<open>utils/currency.ts\<close>.\<close>

definition normalizeCurrency :: "string option \<Rightarrow> string \<Rightarrow> string" where
  "normalizeCurrency v fallback =
     (let trimmed = (case v of Some t \<Rightarrow> trim t | None \<Rightarrow> [])
      in toUpperCase (if trimmed \<noteq> [] then trimmed else fallback))"

definition resolvePaypalCurrency :: "env \<Rightarrow> string option \<Rightarrow> exn + string" where
  "resolvePaypalCurrency en courseCurrency =
     (case loadAppConfig en of
        Inl e \<Rightarrow> Inl e
      | Inr appConfig \<Rightarrow>
          let paypalCurrency = normalizeCurrency (paypal_currency appConfig) (defaultCurrency appConfig)
          in Inr (normalizeCurrency courseCurrency paypalCurrency))"

subsection \<open>The capture handlers\<close>

text \<open>\<^verbatim>\<open>event.resource.amount?.value || fallback\<close>\<close>

definition payment_amount :: "event \<Rightarrow> rat \<Rightarrow> amount_val" where
  "payment_amount ev fallback =
     (case amount (resource ev) of
        None \<Rightarrow> AmountNumber fallback
      | Some a \<Rightarrow> if amount_value a \<noteq> [] then AmountText (amount_value a) else AmountNumber fallback)"

text \<open>\<^verbatim>\<open>normalizeCurrency(event.resource.amount?.currency_code, fallback)\<close>\<close>

definition payment_currency :: "event \<Rightarrow> string \<Rightarrow> string" where
  "payment_currency ev fallback =
     normalizeCurrency (map_option currency_code (amount (resource ev))) fallback"

text \<open>
  The pending row that a completed capture looks for: none without a truthy order id.
\<close>

definition find_pending :: "event \<Rightarrow> jsnum \<Rightarrow> jsnum \<Rightarrow> state \<Rightarrow> tx_row option" where
  "find_pending ev userId courseId s =
     (case order_id (resource ev) of
        None \<Rightarrow> None
      | Some oid \<Rightarrow> if oid = [] then None else select_pending userId courseId oid s)"

text \<open>
  The transaction of a granted capture: the pending row of the order becomes
  \<^verbatim>\<open>success\<close>, or a new \<^verbatim>\<open>success\<close> row is inserted. The result carries the
  message id of the pending row.
\<close>

definition reconcile_transaction ::
  "nat \<Rightarrow> event \<Rightarrow> jsnum \<Rightarrow> jsnum \<Rightarrow> amount_val \<Rightarrow> string \<Rightarrow> state \<Rightarrow> nat option \<times> state" where
  "reconcile_transaction now ev userId courseId paymentAmount paymentCurrency s =
     (let captureId = resource_id (resource ev)
      in case find_pending ev userId courseId s of
           Some p \<Rightarrow>
             (notification_message_id p,
              update_transaction ''success'' captureId paymentAmount paymentCurrency (tx_id p) s)
         | None \<Rightarrow>
             (None,
              insert_transaction userId courseId captureId paymentAmount paymentCurrency
                ''success'' ''purchase'' None now s))"

text \<open>
  \<^verbatim>\<open>handlePaymentCaptureCompleted\<close> after the duplicate check: the entitlement is
  inserted, the transaction reconciled, both cache keys of the user deleted and the
  confirmation sent (a failure of the courier is caught and changes nothing).
\<close>

definition grant_access ::
  "nat \<Rightarrow> event \<Rightarrow> jsnum \<Rightarrow> jsnum \<Rightarrow> course_meta \<Rightarrow> string \<Rightarrow> state \<Rightarrow> state" where
  "grant_access now ev userId courseId meta courseCurrency s =
     (let s1 = insert_user_course userId courseId now s;
          paymentAmount = payment_amount ev (price meta);
          paymentCurrency = payment_currency ev courseCurrency;
          (notificationMessageId, s2) =
             reconcile_transaction now ev userId courseId paymentAmount paymentCurrency s1;
          s3 = log_effect (CacheDel (USER_COURSES userId)) s2;
          s4 = log_effect (CacheDel (USER userId)) s3
      in log_effect (ConfirmationNotification userId (title meta) notificationMessageId) s4)"

definition handlePaymentCaptureCompleted ::
  "env \<Rightarrow> nat \<Rightarrow> event \<Rightarrow> state \<Rightarrow> (exn + unit) \<times> state" where
  "handlePaymentCaptureCompleted en now ev s =
     (case parse_custom_id (custom_id (resource ev)) of
        None \<Rightarrow> (Inr (), s)
      | Some (userId, courseId) \<Rightarrow>
          if \<not> stat_course_dir en courseId then (Inr (), s)
          else (case loadCourseMetadata en courseId of
                  None \<Rightarrow> (Inr (), s)
                | Some meta \<Rightarrow>
                    (case resolvePaypalCurrency en (meta_currency meta) of
                       Inl e \<Rightarrow> (Inl e, s)
                     | Inr courseCurrency \<Rightarrow>
                         if select_user_course userId courseId s \<noteq> [] then (Inr (), s)
                         else (Inr (), grant_access now ev userId courseId meta courseCurrency s))))"

definition handlePaymentCaptureDenied ::
  "env \<Rightarrow> nat \<Rightarrow> event \<Rightarrow> state \<Rightarrow> (exn + unit) \<times> state" where
  "handlePaymentCaptureDenied en now ev s =
     (case parse_custom_id (custom_id (resource ev)) of
        None \<Rightarrow> (Inr (), s)
      | Some (userId, courseId) \<Rightarrow>
          (case resolvePaypalCurrency en None of
             Inl e \<Rightarrow> (Inl e, s)
           | Inr fallbackCurrency \<Rightarrow>
               (Inr (),
                insert_transaction userId courseId (resource_id (resource ev))
                  (payment_amount ev 0) (payment_currency ev fallbackCurrency)
                  ''failed'' ''purchase'' None now s)))"

definition handlePaymentCaptureRefunded ::
  "env \<Rightarrow> nat \<Rightarrow> event \<Rightarrow> state \<Rightarrow> (exn + unit) \<times> state" where
  "handlePaymentCaptureRefunded en now ev s =
     (case parse_custom_id (custom_id (resource ev)) of
        None \<Rightarrow> (Inr (), s)
      | Some (userId, courseId) \<Rightarrow>
          (case resolvePaypalCurrency en None of
             Inl e \<Rightarrow> (Inl e, s)
           | Inr fallbackCurrency \<Rightarrow>
               (let s1 = delete_user_course userId courseId s;
                    s2 = insert_transaction userId courseId (resource_id (resource ev))
                           (payment_amount ev 0) (payment_currency ev fallbackCurrency)
                           ''refunded'' ''refund'' None now s1
                in (Inr (), log_effect (CacheDel (USER_COURSES userId)) s2))))"

text \<open>
  \<^verbatim>\<open>handleCheckoutOrderApproved\<close>: the order is captured and the result handled as a
  completed capture; whatever is thrown inside is caught.
\<close>

definition handleCheckoutOrderApproved ::
  "env \<Rightarrow> nat \<Rightarrow> event \<Rightarrow> state \<Rightarrow> (exn + unit) \<times> state" where
  "handleCheckoutOrderApproved en now ev s =
     (let oid = resource_id (resource ev);
          s1 = log_effect (CaptureOrder oid) s
      in case captureOrder en oid of
           Inl e \<Rightarrow> (Inr (), s1)
         | Inr captureResult \<Rightarrow>
             (let captureEvent =
                    ev\<lparr>event_type := ''PAYMENT.CAPTURE.COMPLETED'',
                       resource := (resource ev)
                         \<lparr>resource_id := captureId captureResult,
                          amount := Some \<lparr>currency_code = captured_currency captureResult,
                                          amount_value = captured_amount captureResult\<rparr>\<rparr>\<rparr>
              in (Inr (), snd (handlePaymentCaptureCompleted en now captureEvent s1))))"

subsection \<open>The webhook dispatcher\<close>

text \<open>The \<^verbatim>\<open>switch\<close> of \<^verbatim>\<open>handlePayPalWebhook\<close> over the event type.\<close>

definition route_event :: "env \<Rightarrow> nat \<Rightarrow> event \<Rightarrow> state \<Rightarrow> (exn + unit) \<times> state" where
  "route_event en now ev s =
     (if event_type ev = ''PAYMENT.CAPTURE.COMPLETED'' then handlePaymentCaptureCompleted en now ev s
      else if event_type ev = ''PAYMENT.CAPTURE.DENIED'' then handlePaymentCaptureDenied en now ev s
      else if event_type ev = ''PAYMENT.CAPTURE.REFUNDED'' then handlePaymentCaptureRefunded en now ev s
      else if event_type ev = ''CHECKOUT.ORDER.APPROVED'' then handleCheckoutOrderApproved en now ev s
      else (Inr (), s))"

text \<open>
  The signature gate: \<open>Inr (Some r)\<close> is the early response, \<open>Inr None\<close> lets the event
  through, \<open>Inl e\<close> is an exception of the verifier.
\<close>

definition signature_gate :: "env \<Rightarrow> webhook_request \<Rightarrow> exn + response option" where
  "signature_gate en req =
     (if webhookId en \<noteq> [] then
        (case verifyWebhookSignature en (headers req) (body req) (webhookId en) of
           Inl e \<Rightarrow> Inl e
         | Inr isValid \<Rightarrow>
             if \<not> isValid
             then Inr (Some \<lparr>resp_status = 401, resp_body = ErrorBody ''Invalid signature''\<rparr>)
             else Inr None)
      else if nodeEnv en = Some ''production''
      then Inr (Some \<lparr>resp_status = 500,
                      resp_body = ErrorBody ''Webhook verification not configured''\<rparr>)
      else Inr None)"

definition handlePayPalWebhook ::
  "env \<Rightarrow> nat \<Rightarrow> webhook_request \<Rightarrow> state \<Rightarrow> response \<times> state" where
  "handlePayPalWebhook en now req s =
     (case signature_gate en req of
        Inl e \<Rightarrow>
          (\<lparr>resp_status = 200, resp_body = ReceivedWithError ''processed with error''\<rparr>, s)
      | Inr (Some early) \<Rightarrow> (early, s)
      | Inr None \<Rightarrow>
          (case route_event en now (body req) s of
             (Inl e, s') \<Rightarrow>
               (\<lparr>resp_status = 200, resp_body = ReceivedWithError ''processed with error''\<rparr>, s')
           | (Inr u, s') \<Rightarrow> (\<lparr>resp_status = 200, resp_body = Received\<rparr>, s')))"

subsection \<open>Order creation\<close>

record purchase_data =
  data_orderId :: string
  data_approveUrl :: string
  data_price :: rat
  data_amount :: string
  data_currency :: string

text \<open>
  \<^verbatim>\<open>createPurchaseOrder\<close> from the validation of the course id on, for the user with
  id \<open>userId\<close> and the number \<open>courseId\<close> that \<^verbatim>\<open>parseInt\<close> returned. An exception
  goes to \<^verbatim>\<open>next(error)\<close>, which is the \<open>Inl\<close> result here. The call of the provider
  and the notification are logged before their outcome is known.
\<close>

definition order_for_course ::
  "env \<Rightarrow> nat \<Rightarrow> jsnum \<Rightarrow> jsnum \<Rightarrow> state \<Rightarrow> (exn + purchase_data) \<times> state" where
  "order_for_course en now userId courseId s =
     (if falsy_num courseId then (Inl (HttpError ''Invalid course ID'' 400), s)
      else if \<not> stat_course_dir en courseId then (Inl (HttpError ''Course not found'' 404), s)
      else (case loadCourseMetadata en courseId of
              None \<Rightarrow> (Inl (HttpError ''Course not found'' 404), s)
            | Some meta \<Rightarrow>
                (case resolvePaypalCurrency en (meta_currency meta) of
                   Inl e \<Rightarrow> (Inl e, s)
                 | Inr currency \<Rightarrow>
                     if select_user_course userId courseId s \<noteq> []
                     then (Inl (HttpError ''Course already purchased'' 400), s)
                     else
                       (let request =
                              \<lparr>order_amount = price meta,
                               order_currency = currency,
                               description = title meta,
                               order_custom_id = (userId, courseId),
                               return_url = frontendUrl en @ ''/purchase/success'',
                               cancel_url = frontendUrl en @ ''/purchase/cancelled''\<rparr>;
                            s1 = log_effect (CreateOrder request) s
                        in case createOrder en request of
                             Inl e \<Rightarrow> (Inl e, s1)
                           | Inr ord \<Rightarrow>
                               (let s2 = log_effect (ProcessingNotification userId (title meta)) s1;
                                    notificationMessageId =
                                      (case sendPurchaseProcessingNotification en userId (title meta) of
                                         Inl e \<Rightarrow> None
                                       | Inr m \<Rightarrow> m);
                                    s3 = insert_transaction userId courseId (orderId ord)
                                           (AmountNumber (price meta)) (paid_currency ord)
                                           ''pending'' ''purchase'' notificationMessageId now s2
                                in (Inr \<lparr>data_orderId = orderId ord,
                                         data_approveUrl = approveUrl ord,
                                         data_price = price meta,
                                         data_amount = paid_amount ord,
                                         data_currency = paid_currency ord\<rparr>,
                                    s3))))))"

text \<open>
  \<^verbatim>\<open>createPurchaseOrder\<close>: \<open>courseIdRaw\<close> is \<^verbatim>\<open>req.body.courseId\<close> as
  \<^verbatim>\<open>parseInt\<close> reads it (converted to a string).
\<close>

definition createPurchaseOrder ::
  "env \<Rightarrow> nat \<Rightarrow> jsnum \<Rightarrow> string \<Rightarrow> state \<Rightarrow> (exn + purchase_data) \<times> state" where
  "createPurchaseOrder en now userId courseIdRaw s =
     order_for_course en now userId (parseInt10 courseIdRaw) s"

subsection \<open>Notions used in the properties\<close>

text \<open>A non-empty run of decimal digits.\<close>

definition all_digits :: "string \<Rightarrow> bool" where
  "all_digits ds = (ds \<noteq> [] \<and> list_all is_digit ds)"

text \<open>
  The row that the handlers of a denied and of a refunded capture insert into a table:
  the next id, the ids of the custom id, the capture id, the amount of the event or 0,
  the currency of the event or the fallback, no message id.
\<close>

definition recorded_row ::
  "event \<Rightarrow> jsnum \<Rightarrow> jsnum \<Rightarrow> string \<Rightarrow> string \<Rightarrow> string \<Rightarrow> nat \<Rightarrow> tx_row list \<Rightarrow> tx_row" where
  "recorded_row ev u c fallbackCurrency st ty now table =
     \<lparr>tx_id = fresh_id (map tx_id table), tx_user_id = u, tx_course_id = c,
      payment_id = resource_id (resource ev), tx_amount = payment_amount ev 0,
      tx_currency = payment_currency ev fallbackCurrency, tx_status = st, tx_type = ty,
      notification_message_id = None, created_at = now\<rparr>"

text \<open>
  Counts over a state: the entitlement rows of a user and course, the
  \<^verbatim>\<open>success\<close> transactions, the purchase confirmations sent or attempted.
\<close>

definition entitlement_count :: "jsnum \<Rightarrow> jsnum \<Rightarrow> state \<Rightarrow> nat" where
  "entitlement_count u c s = length (select_user_course u c s)"

definition success_count :: "state \<Rightarrow> nat" where
  "success_count s = length (filter (\<lambda>r. tx_status r = ''success'') (transactions s))"

fun is_confirmation :: "effect \<Rightarrow> bool" where
  "is_confirmation (ConfirmationNotification u t m) = True"
| "is_confirmation e = False"

definition confirmation_count :: "state \<Rightarrow> nat" where
  "confirmation_count s = length (filter is_confirmation (effects s))"

subsection \<open>A concrete scenario\<close>

text \<open>
  A development deployment without webhook secret that offers course 7 for 19.99, and
  the completed capture \<^verbatim>\<open>CAP123\<close> of order \<^verbatim>\<open>ORDER1\<close>.
\<close>

definition demo_env :: env where
  "demo_env =
     \<lparr>webhookId = [], nodeEnv = Some ''development'', frontendUrl = ''https://app.example'',
      verifyWebhookSignature = (\<lambda>h e w. Inr False),
      captureOrder = (\<lambda>oid. Inl (Error ''capture failed'')),
      createOrder = (\<lambda>r. Inr \<lparr>orderId = ''ORDER1'', approveUrl = ''https://pay.example/ORDER1'',
                              paid_amount = ''19.99'', paid_currency = order_currency r\<rparr>),
      stat_course_dir = (\<lambda>c. c = Fin 7),
      loadCourseMetadata =
        (\<lambda>c. if c = Fin 7 then Some \<lparr>title = ''Course 7'', price = 1999 / 100, meta_currency = None\<rparr>
              else None),
      loadAppConfig = Inr \<lparr>defaultCurrency = ''usd'', paypal_currency = None\<rparr>,
      sendPurchaseProcessingNotification = (\<lambda>u t. Inr (Some 5))\<rparr>"

definition empty_state :: state where
  "empty_state = \<lparr>user_courses = [], transactions = [], effects = []\<rparr>"

definition capture_event :: "string option \<Rightarrow> event" where
  "capture_event cid =
     \<lparr>event_id = ''WH-1'', event_type = ''PAYMENT.CAPTURE.COMPLETED'',
      resource = \<lparr>resource_id = ''CAP123'', resource_status = None, amount = None,
                  custom_id = cid, order_id = Some ''ORDER1''\<rparr>\<rparr>"

text \<open>
  The pending row that order creation stores for user 42 and course 7, a state holding
  only that row, a state in which the entitlement exists while the row is still pending,
  and a webhook request around an event.
\<close>

definition pending_row :: tx_row where
  "pending_row =
     \<lparr>tx_id = 1, tx_user_id = Fin 42, tx_course_id = Fin 7, payment_id = ''ORDER1'',
      tx_amount = AmountNumber (1999 / 100), tx_currency = ''USD'', tx_status = ''pending'',
      tx_type = ''purchase'', notification_message_id = Some 5, created_at = 100\<rparr>"

definition pending_state :: state where
  "pending_state = \<lparr>user_courses = [], transactions = [pending_row], effects = []\<rparr>"

definition stuck_state :: state where
  "stuck_state =
     \<lparr>user_courses = [\<lparr>uc_id = 1, uc_user_id = Fin 42, uc_course_id = Fin 7, purchased_at = 150\<rparr>],
      transactions = [pending_row], effects = []\<rparr>"

definition demo_request :: "event \<Rightarrow> webhook_request" where
  "demo_request ev =
     \<lparr>headers = \<lparr>auth_algo = Some ''SHA256withRSA'', cert_url = Some ''https://cert.example'',
                  transmission_id = Some ''T1'', transmission_sig = Some ''forged'',
                  transmission_time = Some ''2024-01-01T00:00:00Z''\<rparr>,
      body = ev\<rparr>"

section \<open>Properties\<close>

subsection \<open>Parsing\<close>

lemmas parse_defs =
  parse_custom_id_def match_here_def is_digit_def digit_of_def digit_table_def upt_rec
  digit_val_def dec_value_def
  parseInt10_def is_space_def round_double_def bitlen.simps all_digits_def

lemma strip_prefix_iff: "strip_prefix p s = Some r \<longleftrightarrow> s = p @ r"
  by (induction p s rule: strip_prefix.induct) auto

lemma underscore_no_digit: "\<not> is_digit (CHR ''_'')"
  by (simp add: is_digit_def digit_of_def digit_table_def upt_rec)

lemma digit_no_space: "is_digit c \<Longrightarrow> \<not> is_space c"
  by (auto simp add: is_digit_def digit_of_def digit_table_def upt_rec is_space_def split: if_splits)

lemma digit_no_sign: "is_digit c \<Longrightarrow> c \<noteq> CHR ''-'' \<and> c \<noteq> CHR ''+''"
  by (auto simp add: is_digit_def digit_of_def digit_table_def upt_rec split: if_splits)

lemma takeWhile_digits:
  "list_all is_digit a \<Longrightarrow> takeWhile is_digit (a @ CHR ''_'' # r) = a"
  by (induction a) (simp_all add: underscore_no_digit)

lemma dropWhile_digits:
  "list_all is_digit a \<Longrightarrow> dropWhile is_digit (a @ CHR ''_'' # r) = CHR ''_'' # r"
  by (induction a) (simp_all add: underscore_no_digit)

lemma takeWhile_digits_app:
  "list_all is_digit b \<Longrightarrow> takeWhile is_digit (b @ post) = b @ takeWhile is_digit post"
  by (induction b) simp_all

text \<open>An occurrence of the pattern at the start of the subject is matched; the second
  group also takes the digits that follow the occurrence.\<close>

lemma match_here_occurrence:
  assumes "all_digits a" "all_digits b"
  shows "match_here (''user_'' @ a @ ''_course_'' @ b @ post) = Some (a, b @ takeWhile is_digit post)"
  using assms
  by (simp add: match_here_def all_digits_def takeWhile_digits dropWhile_digits
        takeWhile_digits_app underscore_no_digit)

lemma match_here_shape:
  assumes "match_here s = Some (a, b)"
  shows "\<exists>post. s = ''user_'' @ a @ ''_course_'' @ b @ post \<and> all_digits a \<and> all_digits b"
proof -
  from assms obtain r1 where r1: "strip_prefix ''user_'' s = Some r1"
    by (auto simp add: match_here_def split: option.splits)
  from assms r1 have a: "a = takeWhile is_digit r1" "a \<noteq> []"
    by (auto simp add: match_here_def Let_def split: option.splits if_splits)
  from assms r1 obtain r3 where r3: "strip_prefix ''_course_'' (dropWhile is_digit r1) = Some r3"
    by (auto simp add: match_here_def Let_def split: option.splits if_splits)
  from assms r1 r3 have b: "b = takeWhile is_digit r3" "b \<noteq> []"
    by (auto simp add: match_here_def Let_def split: option.splits if_splits)
  have e1: "r1 = a @ dropWhile is_digit r1" using a by simp
  have e2: "dropWhile is_digit r1 = ''_course_'' @ r3" using r3 by (simp only: strip_prefix_iff)
  have e3: "r3 = b @ dropWhile is_digit r3" using b by simp
  have e4: "s = ''user_'' @ r1" using r1 by (simp only: strip_prefix_iff)
  have "s = ''user_'' @ a @ ''_course_'' @ b @ dropWhile is_digit r3"
    by (subst e4, subst e1, subst e2, subst e3) (rule refl)
  moreover have "list_all is_digit a" "list_all is_digit b"
    using a b by (auto simp add: list_all_iff dest: set_takeWhileD)
  ultimately have "s = ''user_'' @ a @ ''_course_'' @ b @ dropWhile is_digit r3
      \<and> all_digits a \<and> all_digits b"
    using a(2) b(2) by (simp only: all_digits_def simp_thms)
  then show ?thesis by (rule exI)
qed

lemma custom_id_match_found:
  "match_here t \<noteq> None \<Longrightarrow> custom_id_match (pre @ t) \<noteq> None"
proof (induction pre)
  case Nil
  then show ?case by (cases t) (auto split: option.splits)
next
  case (Cons c pre)
  then show ?case by (auto split: option.splits)
qed

lemma custom_id_match_shape:
  "custom_id_match s = Some (a, b) \<Longrightarrow>
     \<exists>pre post. s = pre @ ''user_'' @ a @ ''_course_'' @ b @ post \<and> all_digits a \<and> all_digits b"
proof (induction s)
  case Nil
  then show ?case by (simp add: match_here_def)
next
  case (Cons c cs)
  show ?case
  proof (cases "match_here (c # cs)")
    case None
    with Cons.prems have "custom_id_match cs = Some (a, b)" by simp
    from Cons.IH [OF this] obtain pre post where
      "cs = pre @ ''user_'' @ a @ ''_course_'' @ b @ post" "all_digits a" "all_digits b" by blast
    then have "c # cs = (c # pre) @ ''user_'' @ a @ ''_course_'' @ b @ post \<and> all_digits a \<and> all_digits b"
      by simp
    then show ?thesis by blast
  next
    case (Some m)
    with Cons.prems have "match_here (c # cs) = Some (a, b)" by simp
    from match_here_shape [OF this] obtain post where
      "c # cs = [] @ ''user_'' @ a @ ''_course_'' @ b @ post \<and> all_digits a \<and> all_digits b" by auto
    then show ?thesis by blast
  qed
qed

text \<open>The pattern rejects exactly the subjects without an occurrence.\<close>

lemma custom_id_match_None_iff:
  "custom_id_match s = None \<longleftrightarrow>
     \<not> (\<exists>pre a b post. s = pre @ ''user_'' @ a @ ''_course_'' @ b @ post \<and> all_digits a \<and> all_digits b)"
proof
  assume n: "custom_id_match s = None"
  show "\<not> (\<exists>pre a b post. s = pre @ ''user_'' @ a @ ''_course_'' @ b @ post \<and> all_digits a \<and> all_digits b)"
  proof
    assume "\<exists>pre a b post. s = pre @ ''user_'' @ a @ ''_course_'' @ b @ post \<and> all_digits a \<and> all_digits b"
    then obtain pre a b post where
      s: "s = pre @ (''user_'' @ a @ ''_course_'' @ b @ post)" and d: "all_digits a" "all_digits b" by auto
    have m: "match_here (''user_'' @ a @ ''_course_'' @ b @ post) \<noteq> None"
      by (simp only: match_here_occurrence [OF d] option.distinct not_False_eq_True)
    have "custom_id_match s \<noteq> None"
      unfolding s by (rule custom_id_match_found) (rule m)
    with n show False by blast
  qed
next
  assume no: "\<not> (\<exists>pre a b post. s = pre @ ''user_'' @ a @ ''_course_'' @ b @ post \<and> all_digits a \<and> all_digits b)"
  show "custom_id_match s = None"
  proof (cases "custom_id_match s")
    case None
    then show ?thesis .
  next
    case (Some m)
    obtain a b where "m = (a, b)" by (cases m)
    with Some have "custom_id_match s = Some (a, b)" by simp
    from custom_id_match_shape [OF this] no show ?thesis by blast
  qed
qed

lemma custom_id_match_exact:
  assumes "all_digits a" "all_digits b"
  shows "custom_id_match (''user_'' @ a @ ''_course_'' @ b) = Some (a, b)"
  using match_here_occurrence [OF assms, of "[]"] by simp

lemma bitlen_le: "bitlen n \<le> k \<longleftrightarrow> n < 2 ^ k"
proof (induction n arbitrary: k rule: bitlen.induct)
  case (1 n)
  show ?case
  proof (cases "n = 0")
    case True
    then show ?thesis by (simp add: bitlen.simps)
  next
    case False
    show ?thesis
    proof (cases k)
      case 0
      with False show ?thesis by (simp add: bitlen.simps)
    next
      case (Suc j)
      have "bitlen n \<le> Suc j \<longleftrightarrow> bitlen (n div 2) \<le> j"
        using False by (subst bitlen.simps) simp
      also have "\<dots> \<longleftrightarrow> n div 2 < 2 ^ j" using 1 False by simp
      also have "\<dots> \<longleftrightarrow> n < 2 ^ Suc j" by auto
      finally show ?thesis using Suc by simp
    qed
  qed
qed

lemma round_double_exact: "n < 2 ^ 53 \<Longrightarrow> round_double n = Fin (int n)"
  by (simp add: round_double_def bitlen_le)

lemma parseInt10_digits:
  assumes "all_digits a"
  shows "parseInt10 a = round_double (dec_value a)"
proof -
  from assms obtain c cs where a: "a = c # cs" and c: "is_digit c" and cs: "list_all is_digit cs"
    by (cases a) (auto simp add: all_digits_def)
  have tw: "takeWhile is_digit cs = cs" using cs by (simp add: list_all_iff)
  show ?thesis
    using c digit_no_space [OF c] digit_no_sign [OF c]
    by (simp add: parseInt10_def a Let_def tw)
qed

subsection \<open>Evaluation of the handlers\<close>

lemmas handler_defs =
  handlePaymentCaptureCompleted_def grant_access_def reconcile_transaction_def find_pending_def
  select_pending_def is_pending_for_def select_user_course_def insert_user_course_def
  insert_transaction_def update_transaction_def log_effect_def fresh_id_def
  payment_amount_def payment_currency_def normalizeCurrency_def resolvePaypalCurrency_def
  toUpperCase_def upper_char_def upper_table_def trim_def

lemmas scenario_defs =
  demo_env_def empty_state_def capture_event_def pending_row_def pending_state_def stuck_state_def
  demo_request_def

subsection \<open>C2: what the custom-id pattern accepts\<close>

text \<open>
  C2, as stated, fails: the pattern is not anchored, so a string that is not of the form
  \<^verbatim>\<open>user_<digits>_course_<digits>\<close> but contains such a piece is accepted. The custom id
  \<^verbatim>\<open>xuser_42_course_7y\<close> is parsed to user 42 and course 7, and a completed capture
  that carries it grants the course.
\<close>

theorem custom_id_unanchored_counterexample:
  "parse_custom_id (Some ''xuser_42_course_7y'') = Some (Fin 42, Fin 7)
   \<and> user_courses (snd (handlePaymentCaptureCompleted demo_env 200
        (capture_event (Some ''xuser_42_course_7y'')) empty_state))
       = [\<lparr>uc_id = 1, uc_user_id = Fin 42, uc_course_id = Fin 7, purchased_at = 200\<rparr>]"
  by (simp add: parse_defs handler_defs demo_env_def capture_event_def empty_state_def)

text \<open>
  C2, amended: a string that is exactly \<^verbatim>\<open>user_<digits>_course_<digits>\<close> is parsed
  to that pair of ids (the ids being exact when below \<open>2 ^ 53\<close>); a custom id is
  rejected if and only if it is absent or contains no piece of that form (the empty
  string is such a string); a completed capture whose custom id is rejected leaves the
  state as it is.
\<close>

theorem custom_id_parsing:
  "(all_digits a \<and> all_digits b \<and> dec_value a < 2 ^ 53 \<and> dec_value b < 2 ^ 53 \<longrightarrow>
      parse_custom_id (Some (''user_'' @ a @ ''_course_'' @ b))
        = Some (Fin (int (dec_value a)), Fin (int (dec_value b))))
   \<and> (parse_custom_id cid = None \<longleftrightarrow>
        (case cid of
           None \<Rightarrow> True
         | Some c \<Rightarrow> \<not> (\<exists>pre x y post. c = pre @ ''user_'' @ x @ ''_course_'' @ y @ post
                                     \<and> all_digits x \<and> all_digits y)))
   \<and> (parse_custom_id (custom_id (resource ev)) = None \<longrightarrow>
        handlePaymentCaptureCompleted en now ev s = (Inr (), s))"
proof (intro conjI impI)
  assume h: "all_digits a \<and> all_digits b \<and> dec_value a < 2 ^ 53 \<and> dec_value b < 2 ^ 53"
  then have m: "custom_id_match (''user_'' @ a @ ''_course_'' @ b) = Some (a, b)"
    by (intro custom_id_match_exact) simp_all
  have "parse_custom_id (Some (''user_'' @ a @ ''_course_'' @ b)) = Some (parseInt10 a, parseInt10 b)"
    unfolding parse_custom_id_def using m by simp
  then show "parse_custom_id (Some (''user_'' @ a @ ''_course_'' @ b))
        = Some (Fin (int (dec_value a)), Fin (int (dec_value b)))"
    using h by (simp add: parseInt10_digits round_double_exact)
next
  show "parse_custom_id cid = None \<longleftrightarrow>
        (case cid of
           None \<Rightarrow> True
         | Some c \<Rightarrow> \<not> (\<exists>pre x y post. c = pre @ ''user_'' @ x @ ''_course_'' @ y @ post
                                     \<and> all_digits x \<and> all_digits y))"
  proof (cases cid)
    case None
    then show ?thesis by (simp add: parse_custom_id_def)
  next
    case (Some c)
    have "parse_custom_id (Some c) = None \<longleftrightarrow> custom_id_match c = None"
      by (cases c) (auto simp add: parse_custom_id_def match_here_def split: option.splits)
    then show ?thesis using Some by (simp only: custom_id_match_None_iff option.case)
  qed
next
  assume "parse_custom_id (custom_id (resource ev)) = None"
  then show "handlePaymentCaptureCompleted en now ev s = (Inr (), s)"
    by (simp add: handlePaymentCaptureCompleted_def)
qed

text \<open>
  C2, amended, at concrete inputs: \<^verbatim>\<open>user_42_course_7\<close> is parsed to (42, 7), and a
  completed capture with the custom id \<^verbatim>\<open>order-77\<close> changes nothing.
\<close>

theorem custom_id_parsing_witness:
  "parse_custom_id (Some ''user_42_course_7'') = Some (Fin 42, Fin 7)
   \<and> handlePaymentCaptureCompleted demo_env 200 (capture_event (Some ''order-77'')) empty_state
       = (Inr (), empty_state)"
proof -
  have h: "all_digits ''42'' \<and> all_digits ''7'' \<and> dec_value ''42'' < 2 ^ 53 \<and> dec_value ''7'' < 2 ^ 53"
    by (simp add: parse_defs)
  have p: "parse_custom_id (custom_id (resource (capture_event (Some ''order-77'')))) = None"
    by (simp add: parse_defs capture_event_def)
  from custom_id_parsing [of "''42''" "''7''" None "capture_event (Some ''order-77'')" demo_env 200 empty_state]
    h p
  show ?thesis by (simp add: dec_value_def digit_val_def digit_of_def digit_table_def upt_rec)
qed

subsection \<open>C5 and C6: the dispatcher\<close>

lemma resolve_verifier:
  "resolvePaypalCurrency (en\<lparr>verifyWebhookSignature := v\<rparr>) x = resolvePaypalCurrency en x"
  by (simp add: resolvePaypalCurrency_def)

lemma completed_verifier:
  "handlePaymentCaptureCompleted (en\<lparr>verifyWebhookSignature := v\<rparr>) now ev s
     = handlePaymentCaptureCompleted en now ev s"
  by (simp add: handlePaymentCaptureCompleted_def resolve_verifier
        cong: option.case_cong sum.case_cong prod.case_cong if_cong)

lemma route_event_verifier:
  "route_event (en\<lparr>verifyWebhookSignature := v\<rparr>) now ev s = route_event en now ev s"
  by (simp add: route_event_def completed_verifier handlePaymentCaptureDenied_def
        handlePaymentCaptureRefunded_def handleCheckoutOrderApproved_def resolve_verifier
        cong: option.case_cong sum.case_cong prod.case_cong)

lemma gate_invalid:
  "webhookId en \<noteq> [] \<Longrightarrow>
   verifyWebhookSignature en (headers req) (body req) (webhookId en) = Inr False \<Longrightarrow>
   signature_gate en req = Inr (Some \<lparr>resp_status = 401, resp_body = ErrorBody ''Invalid signature''\<rparr>)"
  by (simp add: signature_gate_def)

lemma gate_valid:
  "webhookId en \<noteq> [] \<Longrightarrow>
   verifyWebhookSignature en (headers req) (body req) (webhookId en) = Inr True \<Longrightarrow>
   signature_gate en req = Inr None"
  by (simp add: signature_gate_def)

lemma gate_production:
  "webhookId en = [] \<Longrightarrow> nodeEnv en = Some ''production'' \<Longrightarrow>
   signature_gate en req =
     Inr (Some \<lparr>resp_status = 500, resp_body = ErrorBody ''Webhook verification not configured''\<rparr>)"
  by (simp add: signature_gate_def)

lemma gate_development:
  "webhookId en = [] \<Longrightarrow> nodeEnv en \<noteq> Some ''production'' \<Longrightarrow> signature_gate en req = Inr None"
  by (simp add: signature_gate_def)

lemma webhook_passed:
  assumes "signature_gate en req = Inr None"
  shows "resp_status (fst (handlePayPalWebhook en now req s)) = 200"
    and "resp_body (fst (handlePayPalWebhook en now req s))
           = (case fst (route_event en now (body req) s) of
                Inl e \<Rightarrow> ReceivedWithError ''processed with error''
              | Inr u \<Rightarrow> Received)"
    and "snd (handlePayPalWebhook en now req s) = snd (route_event en now (body req) s)"
proof -
  obtain r s' where rs: "route_event en now (body req) s = (r, s')"
    by (cases "route_event en now (body req) s")
  show "resp_status (fst (handlePayPalWebhook en now req s)) = 200"
    by (cases r) (simp_all add: handlePayPalWebhook_def assms rs)
  show "resp_body (fst (handlePayPalWebhook en now req s))
           = (case fst (route_event en now (body req) s) of
                Inl e \<Rightarrow> ReceivedWithError ''processed with error''
              | Inr u \<Rightarrow> Received)"
    by (cases r) (simp_all add: handlePayPalWebhook_def assms rs)
  show "snd (handlePayPalWebhook en now req s) = snd (route_event en now (body req) s)"
    by (cases r) (simp_all add: handlePayPalWebhook_def assms rs)
qed

lemma route_unknown:
  "event_type ev \<noteq> ''PAYMENT.CAPTURE.COMPLETED'' \<Longrightarrow>
   event_type ev \<noteq> ''PAYMENT.CAPTURE.DENIED'' \<Longrightarrow>
   event_type ev \<noteq> ''PAYMENT.CAPTURE.REFUNDED'' \<Longrightarrow>
   event_type ev \<noteq> ''CHECKOUT.ORDER.APPROVED'' \<Longrightarrow>
   route_event en now ev s = (Inr (), s)"
  unfolding route_event_def by (simp only: if_False)

text \<open>
  C5: with a webhook secret id configured and a signature that the verifier rejects, the
  dispatcher answers 401 and leaves the state as it is; without a secret id in production
  it answers 500 and leaves the state as it is; without a secret id outside production the
  event is routed, the answer is 200, and the verifier has no influence on the outcome.
\<close>

theorem signature_gate_responses:
  "(webhookId en \<noteq> [] \<and> verifyWebhookSignature en (headers req) (body req) (webhookId en) = Inr False \<longrightarrow>
      handlePayPalWebhook en now req s
        = (\<lparr>resp_status = 401, resp_body = ErrorBody ''Invalid signature''\<rparr>, s))
   \<and> (webhookId en = [] \<and> nodeEnv en = Some ''production'' \<longrightarrow>
      handlePayPalWebhook en now req s
        = (\<lparr>resp_status = 500, resp_body = ErrorBody ''Webhook verification not configured''\<rparr>, s))
   \<and> (webhookId en = [] \<and> nodeEnv en \<noteq> Some ''production'' \<longrightarrow>
      snd (handlePayPalWebhook en now req s) = snd (route_event en now (body req) s)
      \<and> resp_status (fst (handlePayPalWebhook en now req s)) = 200
      \<and> handlePayPalWebhook (en\<lparr>verifyWebhookSignature := v\<rparr>) now req s
          = handlePayPalWebhook en now req s)"
proof (intro conjI impI)
  assume "webhookId en \<noteq> [] \<and> verifyWebhookSignature en (headers req) (body req) (webhookId en) = Inr False"
  then show "handlePayPalWebhook en now req s
        = (\<lparr>resp_status = 401, resp_body = ErrorBody ''Invalid signature''\<rparr>, s)"
    by (simp add: handlePayPalWebhook_def gate_invalid)
next
  assume "webhookId en = [] \<and> nodeEnv en = Some ''production''"
  then show "handlePayPalWebhook en now req s
        = (\<lparr>resp_status = 500, resp_body = ErrorBody ''Webhook verification not configured''\<rparr>, s)"
    by (simp add: handlePayPalWebhook_def gate_production)
next
  assume a: "webhookId en = [] \<and> nodeEnv en \<noteq> Some ''production''"
  then have g: "signature_gate en req = Inr None" by (simp add: gate_development)
  from webhook_passed(3) [OF g]
  show "snd (handlePayPalWebhook en now req s) = snd (route_event en now (body req) s)" .
next
  assume a: "webhookId en = [] \<and> nodeEnv en \<noteq> Some ''production''"
  then have g: "signature_gate en req = Inr None" by (simp add: gate_development)
  from webhook_passed(1) [OF g]
  show "resp_status (fst (handlePayPalWebhook en now req s)) = 200" .
next
  assume a: "webhookId en = [] \<and> nodeEnv en \<noteq> Some ''production''"
  then have g: "signature_gate en req = Inr None" by (simp add: gate_development)
  from a have g': "signature_gate (en\<lparr>verifyWebhookSignature := v\<rparr>) req = Inr None"
    by (simp add: gate_development)
  show "handlePayPalWebhook (en\<lparr>verifyWebhookSignature := v\<rparr>) now req s
          = handlePayPalWebhook en now req s"
    by (simp add: handlePayPalWebhook_def g g' route_event_verifier)
qed

text \<open>
  C5 at concrete requests: a request with a forged signature against a configured secret
  id gets 401, a request to a production server without secret id gets 500, both without
  any change; the development server without secret id processes the capture and grants
  the course.
\<close>

theorem signature_gate_responses_witness:
  "handlePayPalWebhook (demo_env\<lparr>webhookId := ''WH-ID''\<rparr>) 200
       (demo_request (capture_event (Some ''user_42_course_7''))) empty_state
     = (\<lparr>resp_status = 401, resp_body = ErrorBody ''Invalid signature''\<rparr>, empty_state)
   \<and> handlePayPalWebhook (demo_env\<lparr>nodeEnv := Some ''production''\<rparr>) 200
       (demo_request (capture_event (Some ''user_42_course_7''))) empty_state
     = (\<lparr>resp_status = 500, resp_body = ErrorBody ''Webhook verification not configured''\<rparr>,
        empty_state)
   \<and> user_courses (snd (handlePayPalWebhook demo_env 200
         (demo_request (capture_event (Some ''user_42_course_7''))) empty_state))
     = [\<lparr>uc_id = 1, uc_user_id = Fin 42, uc_course_id = Fin 7, purchased_at = 200\<rparr>]"
proof -
  let ?req = "demo_request (capture_event (Some ''user_42_course_7''))"
  have a: "webhookId (demo_env\<lparr>webhookId := ''WH-ID''\<rparr>) \<noteq> []
      \<and> verifyWebhookSignature (demo_env\<lparr>webhookId := ''WH-ID''\<rparr>) (headers ?req) (body ?req)
          (webhookId (demo_env\<lparr>webhookId := ''WH-ID''\<rparr>)) = Inr False"
    by (simp add: demo_env_def)
  have b: "webhookId (demo_env\<lparr>nodeEnv := Some ''production''\<rparr>) = []
      \<and> nodeEnv (demo_env\<lparr>nodeEnv := Some ''production''\<rparr>) = Some ''production''"
    by (simp add: demo_env_def)
  have c: "webhookId demo_env = [] \<and> nodeEnv demo_env \<noteq> Some ''production''"
    by (simp add: demo_env_def)
  have r: "user_courses (snd (route_event demo_env 200 (body ?req) empty_state))
     = [\<lparr>uc_id = 1, uc_user_id = Fin 42, uc_course_id = Fin 7, purchased_at = 200\<rparr>]"
    by (simp add: route_event_def parse_defs handler_defs scenario_defs)
  from signature_gate_responses [of "demo_env\<lparr>webhookId := ''WH-ID''\<rparr>" ?req 200 empty_state]
    signature_gate_responses [of "demo_env\<lparr>nodeEnv := Some ''production''\<rparr>" ?req 200 empty_state]
    signature_gate_responses [of demo_env ?req 200 empty_state]
    a b c r
  show ?thesis by simp
qed

text \<open>
  C6: once the signature gate is passed (a valid signature, or no secret id outside
  production) the dispatcher answers 200 with \<^verbatim>\<open>received: true\<close>; the body carries
  the error field exactly when the routed handler threw; the state is the one the handler
  left; an event of an unknown type is acknowledged and changes nothing.
\<close>

theorem verified_webhook_always_acknowledged:
  assumes "(webhookId en \<noteq> []
              \<and> verifyWebhookSignature en (headers req) (body req) (webhookId en) = Inr True)
           \<or> (webhookId en = [] \<and> nodeEnv en \<noteq> Some ''production'')"
  shows "resp_status (fst (handlePayPalWebhook en now req s)) = 200
         \<and> resp_body (fst (handlePayPalWebhook en now req s))
             = (case fst (route_event en now (body req) s) of
                  Inl e \<Rightarrow> ReceivedWithError ''processed with error''
                | Inr u \<Rightarrow> Received)
         \<and> snd (handlePayPalWebhook en now req s) = snd (route_event en now (body req) s)
         \<and> (event_type (body req) \<noteq> ''PAYMENT.CAPTURE.COMPLETED''
              \<and> event_type (body req) \<noteq> ''PAYMENT.CAPTURE.DENIED''
              \<and> event_type (body req) \<noteq> ''PAYMENT.CAPTURE.REFUNDED''
              \<and> event_type (body req) \<noteq> ''CHECKOUT.ORDER.APPROVED'' \<longrightarrow>
            handlePayPalWebhook en now req s = (\<lparr>resp_status = 200, resp_body = Received\<rparr>, s))"
proof -
  from assms have g: "signature_gate en req = Inr None"
    by (auto simp add: gate_valid gate_development)
  have "event_type (body req) \<noteq> ''PAYMENT.CAPTURE.COMPLETED''
              \<and> event_type (body req) \<noteq> ''PAYMENT.CAPTURE.DENIED''
              \<and> event_type (body req) \<noteq> ''PAYMENT.CAPTURE.REFUNDED''
              \<and> event_type (body req) \<noteq> ''CHECKOUT.ORDER.APPROVED'' \<longrightarrow>
            handlePayPalWebhook en now req s = (\<lparr>resp_status = 200, resp_body = Received\<rparr>, s)"
  proof
    assume "event_type (body req) \<noteq> ''PAYMENT.CAPTURE.COMPLETED''
              \<and> event_type (body req) \<noteq> ''PAYMENT.CAPTURE.DENIED''
              \<and> event_type (body req) \<noteq> ''PAYMENT.CAPTURE.REFUNDED''
              \<and> event_type (body req) \<noteq> ''CHECKOUT.ORDER.APPROVED''"
    then have "route_event en now (body req) s = (Inr (), s)"
      by (intro route_unknown) blast+
    then show "handlePayPalWebhook en now req s = (\<lparr>resp_status = 200, resp_body = Received\<rparr>, s)"
      by (simp add: handlePayPalWebhook_def g)
  qed
  with webhook_passed [OF g, of now s] show ?thesis by blast
qed

text \<open>
  C6 at a concrete request: the configuration file cannot be loaded, the handler of a
  denied capture throws, and the dispatcher still answers 200 with
  \<^verbatim>\<open>received: true\<close> and the error field.
\<close>

theorem verified_webhook_always_acknowledged_witness:
  "handlePayPalWebhook (demo_env\<lparr>loadAppConfig := Inl (Error ''Invalid config.yaml'')\<rparr>) 200
       (demo_request ((capture_event (Some ''user_42_course_7''))
          \<lparr>event_type := ''PAYMENT.CAPTURE.DENIED''\<rparr>)) empty_state
     = (\<lparr>resp_status = 200, resp_body = ReceivedWithError ''processed with error''\<rparr>, empty_state)"
proof -
  let ?en = "demo_env\<lparr>loadAppConfig := Inl (Error ''Invalid config.yaml'')\<rparr>"
  let ?req = "demo_request ((capture_event (Some ''user_42_course_7''))
          \<lparr>event_type := ''PAYMENT.CAPTURE.DENIED''\<rparr>)"
  have g: "(webhookId ?en \<noteq> []
              \<and> verifyWebhookSignature ?en (headers ?req) (body ?req) (webhookId ?en) = Inr True)
           \<or> (webhookId ?en = [] \<and> nodeEnv ?en \<noteq> Some ''production'')"
    by (simp add: demo_env_def)
  have r: "route_event ?en 200 (body ?req) empty_state = (Inl (Error ''Invalid config.yaml''), empty_state)"
    by (simp add: route_event_def handlePaymentCaptureDenied_def resolvePaypalCurrency_def
          parse_defs scenario_defs)
  from verified_webhook_always_acknowledged [OF g, of 200 empty_state] r
  show ?thesis by (simp add: prod_eq_iff response.equality)
qed

subsection \<open>C4: a completed capture for an existing entitlement\<close>

text \<open>
  C4, as stated, fails: user 42 holds course 7 while the transaction of order
  \<^verbatim>\<open>ORDER1\<close> is still pending. The capture of that order finds the entitlement and
  returns at once; the pending row is found by the reconciliation query but the handler
  never reaches it, and the row stays pending.
\<close>

theorem duplicate_capture_leaves_pending_counterexample:
  "select_user_course (Fin 42) (Fin 7) stuck_state \<noteq> []
   \<and> find_pending (capture_event (Some ''user_42_course_7'')) (Fin 42) (Fin 7) stuck_state
       = Some pending_row
   \<and> tx_status pending_row = ''pending''
   \<and> handlePaymentCaptureCompleted demo_env 300 (capture_event (Some ''user_42_course_7'')) stuck_state
       = (Inr (), stuck_state)"
  by (simp add: parse_defs handler_defs scenario_defs)

text \<open>
  C4, amended: a completed capture whose (user, course) entitlement already exists
  leaves the whole state as it is; the entitlement is not inserted again and the
  transaction reconciliation is skipped as well.
\<close>

theorem duplicate_capture_changes_nothing:
  assumes "parse_custom_id (custom_id (resource ev)) = Some (u, c)"
    and "select_user_course u c s \<noteq> []"
  shows "snd (handlePaymentCaptureCompleted en now ev s) = s"
  using assms
  by (simp add: handlePaymentCaptureCompleted_def split: option.splits sum.splits)

text \<open>
  C4, amended, at the concrete state above: after the capture the state is the same, its
  only transaction still pending.
\<close>

theorem duplicate_capture_changes_nothing_witness:
  "snd (handlePaymentCaptureCompleted demo_env 300 (capture_event (Some ''user_42_course_7'')) stuck_state)
     = stuck_state \<and> map tx_status (transactions stuck_state) = [''pending'']"
proof -
  have p: "parse_custom_id (custom_id (resource (capture_event (Some ''user_42_course_7''))))
             = Some (Fin 42, Fin 7)"
    by (simp add: parse_defs capture_event_def)
  have e: "select_user_course (Fin 42) (Fin 7) stuck_state \<noteq> []"
    by (simp add: select_user_course_def stuck_state_def)
  from duplicate_capture_changes_nothing [OF p e, of demo_env 300]
  show ?thesis by (simp add: stuck_state_def pending_row_def)
qed

subsection \<open>C8: a denied capture\<close>



subsection \<open>C7: a refunded capture\<close>

text \<open>
  C7: a refunded capture whose custom id is accepted (and whose fallback currency
  resolves) returns without error, deletes the entitlement rows of the pair (none may
  exist), appends one \<^verbatim>\<open>refunded\<close> row and deletes the cache key of the user's
  course list; the same event once more returns without error, leaves the entitlement
  table as it is and appends one more \<^verbatim>\<open>refunded\<close> row.
\<close>

theorem refund_revokes_and_records:
  assumes "parse_custom_id (custom_id (resource ev)) = Some (u, c)"
    and "resolvePaypalCurrency en None = Inr cur"
  shows "fst (handlePaymentCaptureRefunded en t1 ev s) = Inr ()
     \<and> user_courses (snd (handlePaymentCaptureRefunded en t1 ev s))
         = filter (\<lambda>r. \<not> (uc_user_id r = u \<and> uc_course_id r = c)) (user_courses s)
     \<and> select_user_course u c (snd (handlePaymentCaptureRefunded en t1 ev s)) = []
     \<and> transactions (snd (handlePaymentCaptureRefunded en t1 ev s))
         = transactions s @ [recorded_row ev u c cur ''refunded'' ''refund'' t1 (transactions s)]
     \<and> effects (snd (handlePaymentCaptureRefunded en t1 ev s))
         = effects s @ [CacheDel (USER_COURSES u)]
     \<and> fst (handlePaymentCaptureRefunded en t2 ev (snd (handlePaymentCaptureRefunded en t1 ev s)))
         = Inr ()
     \<and> user_courses (snd (handlePaymentCaptureRefunded en t2 ev
           (snd (handlePaymentCaptureRefunded en t1 ev s))))
         = user_courses (snd (handlePaymentCaptureRefunded en t1 ev s))
     \<and> transactions (snd (handlePaymentCaptureRefunded en t2 ev
           (snd (handlePaymentCaptureRefunded en t1 ev s))))
         = transactions (snd (handlePaymentCaptureRefunded en t1 ev s))
           @ [recorded_row ev u c cur ''refunded'' ''refund'' t2
                (transactions (snd (handlePaymentCaptureRefunded en t1 ev s)))]"
proof -
  have step: "\<And>t st. handlePaymentCaptureRefunded en t ev st =
      (Inr (),
       st\<lparr>user_courses := filter (\<lambda>r. \<not> (uc_user_id r = u \<and> uc_course_id r = c)) (user_courses st),
          transactions := transactions st
             @ [recorded_row ev u c cur ''refunded'' ''refund'' t (transactions st)],
          effects := effects st @ [CacheDel (USER_COURSES u)]\<rparr>)"
    using assms
    by (simp add: handlePaymentCaptureRefunded_def delete_user_course_def insert_transaction_def
          log_effect_def recorded_row_def Let_def)
  show ?thesis
    by (simp add: step select_user_course_def)
qed

text \<open>
  C7 at a concrete state: user 42 holds course 7; after the refund the entitlement table
  is empty, and after the second refund the transactions are the pending row and two
  refunded rows.
\<close>

theorem refund_revokes_and_records_witness:
  "user_courses (snd (handlePaymentCaptureRefunded demo_env 400
       ((capture_event (Some ''user_42_course_7''))\<lparr>event_type := ''PAYMENT.CAPTURE.REFUNDED''\<rparr>)
       stuck_state)) = []
   \<and> map tx_status (transactions (snd (handlePaymentCaptureRefunded demo_env 500
       ((capture_event (Some ''user_42_course_7''))\<lparr>event_type := ''PAYMENT.CAPTURE.REFUNDED''\<rparr>)
       (snd (handlePaymentCaptureRefunded demo_env 400
       ((capture_event (Some ''user_42_course_7''))\<lparr>event_type := ''PAYMENT.CAPTURE.REFUNDED''\<rparr>)
       stuck_state)))))
     = [''pending'', ''refunded'', ''refunded'']"
proof -
  let ?ev = "(capture_event (Some ''user_42_course_7''))\<lparr>event_type := ''PAYMENT.CAPTURE.REFUNDED''\<rparr>"
  have p: "parse_custom_id (custom_id (resource ?ev)) = Some (Fin 42, Fin 7)"
    by (simp add: parse_defs scenario_defs)
  have q: "resolvePaypalCurrency demo_env None = Inr ''USD''"
    by (simp add: handler_defs scenario_defs)
  from refund_revokes_and_records [OF p q, of 400 stuck_state 500]
  show ?thesis by (simp add: stuck_state_def pending_row_def recorded_row_def)
qed

subsection \<open>The granting path of a completed capture\<close>

lemma latest_in: "latest xs = Some p \<Longrightarrow> p \<in> set xs"
  by (induction xs arbitrary: p) (auto split: option.splits if_splits)

lemma latest_None: "latest xs = None \<longleftrightarrow> xs = []"
  by (cases xs) (auto split: option.splits)

lemma find_pending_Some:
  assumes "find_pending ev u c s = Some p"
  shows "\<exists>oid. order_id (resource ev) = Some oid \<and> oid \<noteq> []
           \<and> p \<in> set (transactions s) \<and> is_pending_for u c oid p"
proof -
  from assms obtain oid where o: "order_id (resource ev) = Some oid" "oid \<noteq> []"
    and l: "latest (filter (is_pending_for u c oid) (transactions s)) = Some p"
    by (auto simp add: find_pending_def select_pending_def split: option.splits if_splits)
  from latest_in [OF l] have "p \<in> set (transactions s) \<and> is_pending_for u c oid p" by simp
  with o show ?thesis by blast
qed

lemma find_pending_None:
  "find_pending ev u c s = None \<longleftrightarrow>
     \<not> (\<exists>oid. order_id (resource ev) = Some oid \<and> oid \<noteq> []
            \<and> (\<exists>r\<in>set (transactions s). is_pending_for u c oid r))"
  by (auto simp add: find_pending_def select_pending_def latest_None filter_empty_conv
        split: option.splits)

lemma find_pending_user_courses:
  "find_pending ev u c (s\<lparr>user_courses := ucs\<rparr>) = find_pending ev u c s"
  by (simp add: find_pending_def select_pending_def split: option.splits)

text \<open>With ids that are a key, an update by id changes the one row that has the id.\<close>

lemma update_by_key:
  assumes "distinct (map f xs)" and "i < length xs"
  shows "map (\<lambda>r. if f r = f (xs ! i) then g r else r) xs = xs[i := g (xs ! i)]"
proof (rule nth_equalityI)
  show "length (map (\<lambda>r. if f r = f (xs ! i) then g r else r) xs) = length (xs[i := g (xs ! i)])"
    by simp
next
  fix j
  assume "j < length (map (\<lambda>r. if f r = f (xs ! i) then g r else r) xs)"
  then have j: "j < length xs" by simp
  have "f (xs ! j) = f (xs ! i) \<longleftrightarrow> j = i"
    using assms j by (metis distinct_conv_nth length_map nth_map)
  then show "map (\<lambda>r. if f r = f (xs ! i) then g r else r) xs ! j = xs[i := g (xs ! i)] ! j"
    using j by (auto simp add: nth_list_update)
qed

lemma handle_completed_grants:
  assumes "parse_custom_id (custom_id (resource ev)) = Some (u, c)"
    and "stat_course_dir en c"
    and "loadCourseMetadata en c = Some meta"
    and "resolvePaypalCurrency en (meta_currency meta) = Inr cur"
    and "select_user_course u c s = []"
  shows "handlePaymentCaptureCompleted en now ev s = (Inr (), grant_access now ev u c meta cur s)"
  using assms by (simp add: handlePaymentCaptureCompleted_def)

lemma grant_access_user_courses:
  "user_courses (grant_access now ev u c meta cur s) =
     user_courses s @ [\<lparr>uc_id = fresh_id (map uc_id (user_courses s)),
                        uc_user_id = u, uc_course_id = c, purchased_at = now\<rparr>]"
  by (simp add: grant_access_def reconcile_transaction_def insert_user_course_def
        update_transaction_def insert_transaction_def log_effect_def Let_def
        split: option.splits)

lemma grant_access_transactions:
  "transactions (grant_access now ev u c meta cur s) =
     (case find_pending ev u c s of
        Some p \<Rightarrow>
          map (\<lambda>r. if tx_id r = tx_id p
                   then r\<lparr>tx_status := ''success'', payment_id := resource_id (resource ev),
                          tx_amount := payment_amount ev (price meta),
                          tx_currency := payment_currency ev cur\<rparr>
                   else r) (transactions s)
      | None \<Rightarrow>
          transactions s @
            [\<lparr>tx_id = fresh_id (map tx_id (transactions s)), tx_user_id = u, tx_course_id = c,
              payment_id = resource_id (resource ev),
              tx_amount = payment_amount ev (price meta),
              tx_currency = payment_currency ev cur,
              tx_status = ''success'', tx_type = ''purchase'',
              notification_message_id = None, created_at = now\<rparr>])"
  by (simp add: grant_access_def reconcile_transaction_def insert_user_course_def
        find_pending_user_courses update_transaction_def insert_transaction_def log_effect_def
        Let_def split: option.splits)

lemma grant_access_effects:
  "effects (grant_access now ev u c meta cur s) =
     effects s @
       [CacheDel (USER_COURSES u), CacheDel (USER u),
        ConfirmationNotification u (title meta)
          (case find_pending ev u c s of Some p \<Rightarrow> notification_message_id p | None \<Rightarrow> None)]"
  by (simp add: grant_access_def reconcile_transaction_def insert_user_course_def
        find_pending_user_courses update_transaction_def insert_transaction_def log_effect_def
        Let_def split: option.splits)

subsection \<open>C3: the transaction of a granted capture\<close>

text \<open>
  C3: when a completed capture grants access (its custom id is accepted, the course
  exists with metadata, the currency resolves, the user does not hold the course yet) and
  the ids of the transaction table are a key: if the event has a non-empty order id and a
  pending row of this user and course has that order id as payment id, then one such row
  is set to \<^verbatim>\<open>success\<close> with the capture id as payment id and the amount and currency
  of the payment, in place, and no row is added; otherwise exactly one new
  \<^verbatim>\<open>success\<close> row is appended.
\<close>

theorem capture_completed_reconciles:
  assumes "parse_custom_id (custom_id (resource ev)) = Some (u, c)"
    and "stat_course_dir en c"
    and "loadCourseMetadata en c = Some meta"
    and "resolvePaypalCurrency en (meta_currency meta) = Inr cur"
    and "select_user_course u c s = []"
    and "distinct (map tx_id (transactions s))"
  shows "(\<forall>oid. order_id (resource ev) = Some oid \<and> oid \<noteq> []
              \<and> (\<exists>r\<in>set (transactions s). is_pending_for u c oid r) \<longrightarrow>
           (\<exists>i<length (transactions s).
               is_pending_for u c oid (transactions s ! i)
               \<and> transactions (snd (handlePaymentCaptureCompleted en now ev s)) =
                   (transactions s)
                     [i := (transactions s ! i)
                        \<lparr>tx_status := ''success'', payment_id := resource_id (resource ev),
                         tx_amount := payment_amount ev (price meta),
                         tx_currency := payment_currency ev cur\<rparr>]))
       \<and> (\<not> (\<exists>oid. order_id (resource ev) = Some oid \<and> oid \<noteq> []
                 \<and> (\<exists>r\<in>set (transactions s). is_pending_for u c oid r)) \<longrightarrow>
           transactions (snd (handlePaymentCaptureCompleted en now ev s)) =
             transactions s @
               [\<lparr>tx_id = fresh_id (map tx_id (transactions s)), tx_user_id = u, tx_course_id = c,
                 payment_id = resource_id (resource ev),
                 tx_amount = payment_amount ev (price meta),
                 tx_currency = payment_currency ev cur,
                 tx_status = ''success'', tx_type = ''purchase'',
                 notification_message_id = None, created_at = now\<rparr>])"
proof (intro conjI allI impI)
  fix oid
  assume m: "order_id (resource ev) = Some oid \<and> oid \<noteq> []
              \<and> (\<exists>r\<in>set (transactions s). is_pending_for u c oid r)"
  then have "find_pending ev u c s \<noteq> None" by (subst find_pending_None) blast
  then obtain p where p: "find_pending ev u c s = Some p" by blast
  from find_pending_Some [OF p] m have pin: "p \<in> set (transactions s)" and pp: "is_pending_for u c oid p"
    by auto
  from pin obtain i where i: "i < length (transactions s)" "transactions s ! i = p"
    by (auto simp add: in_set_conv_nth)
  have "transactions (snd (handlePaymentCaptureCompleted en now ev s)) =
          map (\<lambda>r. if tx_id r = tx_id (transactions s ! i)
                   then r\<lparr>tx_status := ''success'', payment_id := resource_id (resource ev),
                          tx_amount := payment_amount ev (price meta),
                          tx_currency := payment_currency ev cur\<rparr>
                   else r) (transactions s)"
    by (simp add: handle_completed_grants [OF assms(1-5)] grant_access_transactions p i)
  also have "\<dots> = (transactions s)
                     [i := (transactions s ! i)
                        \<lparr>tx_status := ''success'', payment_id := resource_id (resource ev),
                         tx_amount := payment_amount ev (price meta),
                         tx_currency := payment_currency ev cur\<rparr>]"
    by (rule update_by_key [OF assms(6) i(1)])
  finally show "\<exists>i<length (transactions s).
               is_pending_for u c oid (transactions s ! i)
               \<and> transactions (snd (handlePaymentCaptureCompleted en now ev s)) =
                   (transactions s)
                     [i := (transactions s ! i)
                        \<lparr>tx_status := ''success'', payment_id := resource_id (resource ev),
                         tx_amount := payment_amount ev (price meta),
                         tx_currency := payment_currency ev cur\<rparr>]"
    using i pp by blast
next
  assume "\<not> (\<exists>oid. order_id (resource ev) = Some oid \<and> oid \<noteq> []
                 \<and> (\<exists>r\<in>set (transactions s). is_pending_for u c oid r))"
  then have "find_pending ev u c s = None" by (subst find_pending_None) blast
  then show "transactions (snd (handlePaymentCaptureCompleted en now ev s)) =
             transactions s @
               [\<lparr>tx_id = fresh_id (map tx_id (transactions s)), tx_user_id = u, tx_course_id = c,
                 payment_id = resource_id (resource ev),
                 tx_amount = payment_amount ev (price meta),
                 tx_currency = payment_currency ev cur,
                 tx_status = ''success'', tx_type = ''purchase'',
                 notification_message_id = None, created_at = now\<rparr>]"
    by (simp add: handle_completed_grants [OF assms(1-5)] grant_access_transactions)
qed

text \<open>The capture of the scenario is for user 42 and course 7, in US dollars.\<close>

lemma demo_capture_parsed:
  "parse_custom_id (custom_id (resource (capture_event (Some ''user_42_course_7'')))) = Some (Fin 42, Fin 7)"
  by (simp add: parse_defs scenario_defs)

lemma demo_currency: "resolvePaypalCurrency demo_env None = Inr ''USD''"
  by (simp add: handler_defs scenario_defs)

text \<open>
  C3 at concrete states: with the pending row of order \<^verbatim>\<open>ORDER1\<close> in the table the
  capture turns that row into a \<^verbatim>\<open>success\<close> row with payment id \<^verbatim>\<open>CAP123\<close> and
  the table keeps its single row; on the empty table the capture appends the
  \<^verbatim>\<open>success\<close> row with id 1.
\<close>

theorem capture_completed_reconciles_witness:
  "transactions (snd (handlePaymentCaptureCompleted demo_env 200
       (capture_event (Some ''user_42_course_7'')) pending_state))
     = [pending_row\<lparr>tx_status := ''success'', payment_id := ''CAP123''\<rparr>]
   \<and> transactions (snd (handlePaymentCaptureCompleted demo_env 200
       (capture_event (Some ''user_42_course_7'')) empty_state))
     = [\<lparr>tx_id = 1, tx_user_id = Fin 42, tx_course_id = Fin 7, payment_id = ''CAP123'',
         tx_amount = AmountNumber (1999 / 100), tx_currency = ''USD'', tx_status = ''success'',
         tx_type = ''purchase'', notification_message_id = None, created_at = 200\<rparr>]"
proof -
  let ?ev = "capture_event (Some ''user_42_course_7'')"
  let ?meta = "\<lparr>title = ''Course 7'', price = 1999 / 100, meta_currency = None\<rparr>"
  have e: "stat_course_dir demo_env (Fin 7)" "loadCourseMetadata demo_env (Fin 7) = Some ?meta"
    "resolvePaypalCurrency demo_env (meta_currency ?meta) = Inr ''USD''"
    by (simp_all add: demo_currency) (simp_all add: demo_env_def)
  have s1: "select_user_course (Fin 42) (Fin 7) pending_state = []"
    "distinct (map tx_id (transactions pending_state))"
    by (simp_all add: select_user_course_def pending_state_def)
  have s2: "select_user_course (Fin 42) (Fin 7) empty_state = []"
    "distinct (map tx_id (transactions empty_state))"
    by (simp_all add: select_user_course_def empty_state_def)
  have o: "order_id (resource ?ev) = Some ''ORDER1''" "resource_id (resource ?ev) = ''CAP123''"
    "payment_amount ?ev (price ?meta) = AmountNumber (1999 / 100)"
    "payment_currency ?ev ''USD'' = ''USD''"
    by (simp_all add: capture_event_def handler_defs)
  have m: "is_pending_for (Fin 42) (Fin 7) ''ORDER1'' pending_row"
    by (simp add: is_pending_for_def pending_row_def)
  from capture_completed_reconciles [OF demo_capture_parsed e s1, of 200]
    capture_completed_reconciles [OF demo_capture_parsed e s2, of 200]
    o m
  show ?thesis
    by (simp add: pending_state_def empty_state_def fresh_id_def pending_row_def)
qed

subsection \<open>C10: a completed capture without amount\<close>

text \<open>A normalised currency is in upper case already.\<close>

lemma upper_char_idem: "upper_char (upper_char ch) = upper_char ch"
  by (simp add: upper_char_def upper_table_def split: option.splits if_splits)

lemma toUpperCase_idem: "toUpperCase (toUpperCase t) = toUpperCase t"
  by (simp add: toUpperCase_def upper_char_idem)

lemma normalizeCurrency_upper: "toUpperCase (normalizeCurrency v f) = normalizeCurrency v f"
  by (simp add: normalizeCurrency_def Let_def toUpperCase_idem)

lemma resolved_currency_upper:
  "resolvePaypalCurrency en x = Inr cur \<Longrightarrow> toUpperCase cur = cur"
  by (auto simp add: resolvePaypalCurrency_def Let_def normalizeCurrency_upper split: sum.splits)

lemma payment_without_amount:
  assumes "amount (resource ev) = None"
  shows "payment_amount ev p = AmountNumber p" and "payment_currency ev cur = toUpperCase cur"
  using assms by (simp_all add: payment_amount_def payment_currency_def normalizeCurrency_def)

text \<open>
  C10: when a completed capture without amount field grants access, the
  \<^verbatim>\<open>success\<close> transaction it records (the updated pending row, or else the appended
  row) has the price of the course metadata as amount and the resolved course currency
  as currency.
\<close>

theorem missing_amount_uses_course_price:
  assumes "parse_custom_id (custom_id (resource ev)) = Some (u, c)"
    and "stat_course_dir en c"
    and "loadCourseMetadata en c = Some meta"
    and "resolvePaypalCurrency en (meta_currency meta) = Inr cur"
    and "select_user_course u c s = []"
    and "amount (resource ev) = None"
  shows "(\<forall>p. find_pending ev u c s = Some p \<longrightarrow>
            transactions (snd (handlePaymentCaptureCompleted en now ev s)) =
              map (\<lambda>r. if tx_id r = tx_id p
                       then r\<lparr>tx_status := ''success'', payment_id := resource_id (resource ev),
                              tx_amount := AmountNumber (price meta), tx_currency := cur\<rparr>
                       else r) (transactions s))
       \<and> (find_pending ev u c s = None \<longrightarrow>
            transactions (snd (handlePaymentCaptureCompleted en now ev s)) =
              transactions s @
                [\<lparr>tx_id = fresh_id (map tx_id (transactions s)), tx_user_id = u, tx_course_id = c,
                  payment_id = resource_id (resource ev),
                  tx_amount = AmountNumber (price meta), tx_currency = cur,
                  tx_status = ''success'', tx_type = ''purchase'',
                  notification_message_id = None, created_at = now\<rparr>])
       \<and> (\<exists>r\<in>set (transactions (snd (handlePaymentCaptureCompleted en now ev s))).
            tx_status r = ''success'' \<and> payment_id r = resource_id (resource ev)
            \<and> tx_amount r = AmountNumber (price meta) \<and> tx_currency r = cur)"
proof -
  have cur: "payment_currency ev cur = cur"
    by (simp add: payment_without_amount(2) [OF assms(6)] resolved_currency_upper [OF assms(4)])
  have amt: "payment_amount ev (price meta) = AmountNumber (price meta)"
    by (rule payment_without_amount(1) [OF assms(6)])
  have tx: "transactions (snd (handlePaymentCaptureCompleted en now ev s)) =
     (case find_pending ev u c s of
        Some p \<Rightarrow>
          map (\<lambda>r. if tx_id r = tx_id p
                   then r\<lparr>tx_status := ''success'', payment_id := resource_id (resource ev),
                          tx_amount := AmountNumber (price meta), tx_currency := cur\<rparr>
                   else r) (transactions s)
      | None \<Rightarrow>
          transactions s @
            [\<lparr>tx_id = fresh_id (map tx_id (transactions s)), tx_user_id = u, tx_course_id = c,
              payment_id = resource_id (resource ev),
              tx_amount = AmountNumber (price meta), tx_currency = cur,
              tx_status = ''success'', tx_type = ''purchase'',
              notification_message_id = None, created_at = now\<rparr>])"
    by (simp only: handle_completed_grants [OF assms(1-5)] grant_access_transactions cur amt snd_conv)
  have ex: "\<exists>r\<in>set (transactions (snd (handlePaymentCaptureCompleted en now ev s))).
            tx_status r = ''success'' \<and> payment_id r = resource_id (resource ev)
            \<and> tx_amount r = AmountNumber (price meta) \<and> tx_currency r = cur"
  proof (cases "find_pending ev u c s")
    case None
    then show ?thesis by (simp add: tx)
  next
    case (Some p)
    from find_pending_Some [OF Some] have "p \<in> set (transactions s)" by blast
    then have "p\<lparr>tx_status := ''success'', payment_id := resource_id (resource ev),
                 tx_amount := AmountNumber (price meta), tx_currency := cur\<rparr>
               \<in> set (transactions (snd (handlePaymentCaptureCompleted en now ev s)))"
      by (force simp add: tx Some image_iff)
    then show ?thesis by (intro bexI [where x = "p\<lparr>tx_status := ''success'', payment_id := resource_id (resource ev),
                 tx_amount := AmountNumber (price meta), tx_currency := cur\<rparr>"]) simp_all
  qed
  from tx ex show ?thesis by simp
qed

text \<open>
  C10 at the concrete capture, which has no amount: the recorded row has amount 19.99,
  the price of course 7, and currency USD.
\<close>

theorem missing_amount_uses_course_price_witness:
  "transactions (snd (handlePaymentCaptureCompleted demo_env 200
       (capture_event (Some ''user_42_course_7'')) empty_state))
     = [\<lparr>tx_id = 1, tx_user_id = Fin 42, tx_course_id = Fin 7, payment_id = ''CAP123'',
         tx_amount = AmountNumber (1999 / 100), tx_currency = ''USD'', tx_status = ''success'',
         tx_type = ''purchase'', notification_message_id = None, created_at = 200\<rparr>]"
proof -
  let ?ev = "capture_event (Some ''user_42_course_7'')"
  let ?meta = "\<lparr>title = ''Course 7'', price = 1999 / 100, meta_currency = None\<rparr>"
  have e: "stat_course_dir demo_env (Fin 7)" "loadCourseMetadata demo_env (Fin 7) = Some ?meta"
    "resolvePaypalCurrency demo_env (meta_currency ?meta) = Inr ''USD''"
    by (simp_all add: demo_currency) (simp_all add: demo_env_def)
  have s: "select_user_course (Fin 42) (Fin 7) empty_state = []"
    by (simp add: select_user_course_def empty_state_def)
  have a: "amount (resource ?ev) = None" "resource_id (resource ?ev) = ''CAP123''"
    by (simp_all add: capture_event_def)
  have f: "find_pending ?ev (Fin 42) (Fin 7) empty_state = None"
    by (simp add: find_pending_def select_pending_def capture_event_def empty_state_def)
  from missing_amount_uses_course_price [OF demo_capture_parsed e s a(1), of 200] f a(2)
  show ?thesis by (simp add: empty_state_def fresh_id_def)
qed

subsection \<open>C1: a completed capture delivered twice\<close>

lemma grant_access_has_entitlement:
  "select_user_course u c (grant_access now ev u c meta cur s) \<noteq> []"
  by (simp add: select_user_course_def grant_access_user_courses)

text \<open>The second delivery of a completed capture changes nothing, whatever the first did.\<close>

lemma completed_idempotent:
  "snd (handlePaymentCaptureCompleted en t2 ev (snd (handlePaymentCaptureCompleted en t1 ev s)))
     = snd (handlePaymentCaptureCompleted en t1 ev s)"
proof (cases "parse_custom_id (custom_id (resource ev))")
  case None
  then show ?thesis by (simp add: handlePaymentCaptureCompleted_def)
next
  case (Some uc)
  obtain u c where uc: "uc = (u, c)" by (cases uc)
  note p = Some [unfolded uc]
  show ?thesis
  proof (cases "stat_course_dir en c")
    case False
    with p show ?thesis by (simp add: handlePaymentCaptureCompleted_def)
  next
    case dir: True
    show ?thesis
    proof (cases "loadCourseMetadata en c")
      case None
      with p dir show ?thesis by (simp add: handlePaymentCaptureCompleted_def)
    next
      case (Some meta)
      note m = this
      show ?thesis
      proof (cases "resolvePaypalCurrency en (meta_currency meta)")
        case (Inl e)
        with p dir m show ?thesis by (simp add: handlePaymentCaptureCompleted_def)
      next
        case (Inr cur)
        show ?thesis
        proof (cases "select_user_course u c s = []")
          case False
          with p dir m Inr show ?thesis by (simp add: handlePaymentCaptureCompleted_def)
        next
          case True
          have 1: "handlePaymentCaptureCompleted en t1 ev s = (Inr (), grant_access t1 ev u c meta cur s)"
            by (rule handle_completed_grants [OF p dir m Inr True])
          have 2: "snd (handlePaymentCaptureCompleted en t2 ev (grant_access t1 ev u c meta cur s))
                     = grant_access t1 ev u c meta cur s"
            using p dir m Inr grant_access_has_entitlement [of u c t1 ev meta cur s]
            by (simp add: handlePaymentCaptureCompleted_def)
          show ?thesis by (simp add: 1 2)
        qed
      qed
    qed
  qed
qed

lemma count_after_update:
  assumes "i < length xs" and "\<not> P (xs ! i)" and "P y"
  shows "length (filter P (xs[i := y])) = Suc (length (filter P xs))"
proof -
  have a: "xs[i := y] = take i xs @ y # drop (Suc i) xs"
    using assms(1) by (rule upd_conv_take_nth_drop)
  have b: "xs = take i xs @ xs ! i # drop (Suc i) xs"
    using assms(1) by (rule id_take_nth_drop)
  have "length (filter P xs) = length (filter P (take i xs)) + length (filter P (drop (Suc i) xs))"
    by (subst b) (simp add: assms(2))
  moreover have "length (filter P (xs[i := y]))
      = Suc (length (filter P (take i xs)) + length (filter P (drop (Suc i) xs)))"
    by (subst a) (simp add: assms(3))
  ultimately show ?thesis by simp
qed

lemma grant_access_success_count:
  assumes "distinct (map tx_id (transactions s))"
  shows "success_count (grant_access now ev u c meta cur s) = Suc (success_count s)"
proof (cases "find_pending ev u c s")
  case None
  then show ?thesis by (simp add: success_count_def grant_access_transactions)
next
  case (Some p)
  from find_pending_Some [OF Some] obtain oid where
    pin: "p \<in> set (transactions s)" and pp: "is_pending_for u c oid p" by blast
  from pin obtain i where i: "i < length (transactions s)" "transactions s ! i = p"
    by (auto simp add: in_set_conv_nth)
  let ?g = "\<lambda>r. r\<lparr>tx_status := ''success'', payment_id := resource_id (resource ev),
                    tx_amount := payment_amount ev (price meta),
                    tx_currency := payment_currency ev cur\<rparr>"
  have "transactions (grant_access now ev u c meta cur s)
          = map (\<lambda>r. if tx_id r = tx_id (transactions s ! i) then ?g r else r) (transactions s)"
    by (simp add: grant_access_transactions Some i)
  also have "\<dots> = (transactions s)[i := ?g (transactions s ! i)]"
    by (rule update_by_key [OF assms i(1)])
  finally have t: "transactions (grant_access now ev u c meta cur s)
          = (transactions s)[i := ?g (transactions s ! i)]" .
  have np: "\<not> tx_status (transactions s ! i) = ''success''"
    using pp i by (simp add: is_pending_for_def)
  show ?thesis
    unfolding success_count_def t
    by (rule count_after_update [OF i(1)]) (simp_all add: np)
qed

lemma grant_access_confirmation_count:
  "confirmation_count (grant_access now ev u c meta cur s) = Suc (confirmation_count s)"
  by (simp add: confirmation_count_def grant_access_effects)

lemma grant_access_entitlement_count:
  "entitlement_count u c (grant_access now ev u c meta cur s) = Suc (entitlement_count u c s)"
  by (simp add: entitlement_count_def select_user_course_def grant_access_user_courses)

lemma grant_access_length:
  "length (transactions (grant_access now ev u c meta cur s)) \<le> Suc (length (transactions s))"
  by (simp add: grant_access_transactions split: option.splits)

text \<open>
  C1: in a fixed environment the second delivery of a completed capture leaves the state
  that the first delivery produced, whatever the event and the state: it grants nothing,
  records nothing and sends nothing. When the first delivery grants access (custom id
  accepted, course and metadata present, currency resolved, no entitlement yet, ids of
  the transaction table a key), the state after both deliveries holds exactly one
  entitlement row of the pair, exactly one more \<^verbatim>\<open>success\<close> transaction than before,
  exactly one more purchase confirmation than before, and at most one more transaction
  row.
\<close>

theorem capture_completed_twice:
  "snd (handlePaymentCaptureCompleted en t2 ev (snd (handlePaymentCaptureCompleted en t1 ev s)))
     = snd (handlePaymentCaptureCompleted en t1 ev s)
   \<and> (parse_custom_id (custom_id (resource ev)) = Some (u, c)
        \<and> stat_course_dir en c
        \<and> loadCourseMetadata en c = Some meta
        \<and> resolvePaypalCurrency en (meta_currency meta) = Inr cur
        \<and> select_user_course u c s = []
        \<and> distinct (map tx_id (transactions s)) \<longrightarrow>
      entitlement_count u c
          (snd (handlePaymentCaptureCompleted en t2 ev (snd (handlePaymentCaptureCompleted en t1 ev s)))) = 1
      \<and> success_count
          (snd (handlePaymentCaptureCompleted en t2 ev (snd (handlePaymentCaptureCompleted en t1 ev s))))
          = success_count s + 1
      \<and> confirmation_count
          (snd (handlePaymentCaptureCompleted en t2 ev (snd (handlePaymentCaptureCompleted en t1 ev s))))
          = confirmation_count s + 1
      \<and> length (transactions
          (snd (handlePaymentCaptureCompleted en t2 ev (snd (handlePaymentCaptureCompleted en t1 ev s)))))
          \<le> length (transactions s) + 1)"
proof (intro conjI impI)
  show "snd (handlePaymentCaptureCompleted en t2 ev (snd (handlePaymentCaptureCompleted en t1 ev s)))
     = snd (handlePaymentCaptureCompleted en t1 ev s)"
    by (rule completed_idempotent)
next
  assume h: "parse_custom_id (custom_id (resource ev)) = Some (u, c)
        \<and> stat_course_dir en c
        \<and> loadCourseMetadata en c = Some meta
        \<and> resolvePaypalCurrency en (meta_currency meta) = Inr cur
        \<and> select_user_course u c s = []
        \<and> distinct (map tx_id (transactions s))"
  then have g: "handlePaymentCaptureCompleted en t1 ev s = (Inr (), grant_access t1 ev u c meta cur s)"
    by (intro handle_completed_grants) simp_all
  have two: "snd (handlePaymentCaptureCompleted en t2 ev (snd (handlePaymentCaptureCompleted en t1 ev s)))
      = grant_access t1 ev u c meta cur s"
    by (subst completed_idempotent) (simp only: g snd_conv)
  have e0: "entitlement_count u c s = 0" using h by (simp add: entitlement_count_def)
  show "entitlement_count u c
          (snd (handlePaymentCaptureCompleted en t2 ev (snd (handlePaymentCaptureCompleted en t1 ev s)))) = 1"
    by (simp add: two grant_access_entitlement_count e0)
  show "success_count
          (snd (handlePaymentCaptureCompleted en t2 ev (snd (handlePaymentCaptureCompleted en t1 ev s))))
          = success_count s + 1"
    using h by (simp add: two grant_access_success_count)
  show "confirmation_count
          (snd (handlePaymentCaptureCompleted en t2 ev (snd (handlePaymentCaptureCompleted en t1 ev s))))
          = confirmation_count s + 1"
    by (simp add: two grant_access_confirmation_count)
  show "length (transactions
          (snd (handlePaymentCaptureCompleted en t2 ev (snd (handlePaymentCaptureCompleted en t1 ev s)))))
          \<le> length (transactions s) + 1"
    using grant_access_length [of t1 ev u c meta cur s] by (simp add: two)
qed

text \<open>
  C1 at the concrete scenario: the order of user 42 for course 7 is pending, its capture
  is delivered at time 200 and again at time 300; afterwards there is one entitlement
  row, one \<^verbatim>\<open>success\<close> transaction, one confirmation, and the table has not grown
  beyond two rows.
\<close>

theorem capture_completed_twice_witness:
  "entitlement_count (Fin 42) (Fin 7)
      (snd (handlePaymentCaptureCompleted demo_env 300 (capture_event (Some ''user_42_course_7''))
        (snd (handlePaymentCaptureCompleted demo_env 200 (capture_event (Some ''user_42_course_7''))
          pending_state)))) = 1
   \<and> success_count
      (snd (handlePaymentCaptureCompleted demo_env 300 (capture_event (Some ''user_42_course_7''))
        (snd (handlePaymentCaptureCompleted demo_env 200 (capture_event (Some ''user_42_course_7''))
          pending_state)))) = 1
   \<and> confirmation_count
      (snd (handlePaymentCaptureCompleted demo_env 300 (capture_event (Some ''user_42_course_7''))
        (snd (handlePaymentCaptureCompleted demo_env 200 (capture_event (Some ''user_42_course_7''))
          pending_state)))) = 1
   \<and> length (transactions
      (snd (handlePaymentCaptureCompleted demo_env 300 (capture_event (Some ''user_42_course_7''))
        (snd (handlePaymentCaptureCompleted demo_env 200 (capture_event (Some ''user_42_course_7''))
          pending_state))))) \<le> 2"
proof -
  let ?ev = "capture_event (Some ''user_42_course_7'')"
  let ?meta = "\<lparr>title = ''Course 7'', price = 1999 / 100, meta_currency = None\<rparr>"
  have h: "parse_custom_id (custom_id (resource ?ev)) = Some (Fin 42, Fin 7)
        \<and> stat_course_dir demo_env (Fin 7)
        \<and> loadCourseMetadata demo_env (Fin 7) = Some ?meta
        \<and> resolvePaypalCurrency demo_env (meta_currency ?meta) = Inr ''USD''
        \<and> select_user_course (Fin 42) (Fin 7) pending_state = []
        \<and> distinct (map tx_id (transactions pending_state))"
    by (simp add: demo_capture_parsed demo_currency)
       (simp add: demo_env_def select_user_course_def pending_state_def)
  have c: "success_count pending_state = 0" "confirmation_count pending_state = 0"
    "length (transactions pending_state) = 1"
    by (simp_all add: success_count_def confirmation_count_def pending_state_def pending_row_def)
  let ?s2 = "snd (handlePaymentCaptureCompleted demo_env 300 ?ev
                 (snd (handlePaymentCaptureCompleted demo_env 200 ?ev pending_state)))"
  from capture_completed_twice [of demo_env 300 ?ev 200 pending_state "Fin 42" "Fin 7" ?meta "''USD''"] h
  have "entitlement_count (Fin 42) (Fin 7) ?s2 = 1
      \<and> success_count ?s2 = success_count pending_state + 1
      \<and> confirmation_count ?s2 = confirmation_count pending_state + 1
      \<and> length (transactions ?s2) \<le> length (transactions pending_state) + 1"
    by blast
  then show ?thesis by (simp only: c) simp
qed

subsection \<open>C9: order creation that is refused\<close>

text \<open>
  C9, for every number that \<^verbatim>\<open>parseInt\<close> can return as the course id: when the user
  already holds an entitlement for that course, order creation fails and leaves the state
  as it is, so no provider order is created and no transaction row is inserted; if the
  course id is non-zero, its directory and metadata exist and the currency resolves, the
  error is \<^verbatim>\<open>Course already purchased\<close>, status 400. For a non-zero course id without
  directory or without metadata the error is \<^verbatim>\<open>Course not found\<close>, status 404, and
  for a course id that is 0 or NaN it is \<^verbatim>\<open>Invalid course ID\<close>, status 400; both
  leave the state as it is. \<^verbatim>\<open>createPurchaseOrder\<close> is this behaviour at the number that
  \<^verbatim>\<open>parseInt\<close> reads from the request.
\<close>

theorem purchase_order_rejections:
  "(select_user_course userId courseId s \<noteq> [] \<longrightarrow>
      (\<exists>e. order_for_course en now userId courseId s = (Inl e, s)))
   \<and> (select_user_course userId courseId s \<noteq> []
        \<and> \<not> falsy_num courseId
        \<and> stat_course_dir en courseId
        \<and> loadCourseMetadata en courseId = Some meta
        \<and> resolvePaypalCurrency en (meta_currency meta) = Inr cur \<longrightarrow>
      order_for_course en now userId courseId s
        = (Inl (HttpError ''Course already purchased'' 400), s))
   \<and> (\<not> falsy_num courseId
        \<and> (\<not> stat_course_dir en courseId \<or> loadCourseMetadata en courseId = None) \<longrightarrow>
      order_for_course en now userId courseId s = (Inl (HttpError ''Course not found'' 404), s))
   \<and> (falsy_num courseId \<longrightarrow>
      order_for_course en now userId courseId s = (Inl (HttpError ''Invalid course ID'' 400), s))
   \<and> createPurchaseOrder en now userId raw s
        = order_for_course en now userId (parseInt10 raw) s"
  by (auto simp add: createPurchaseOrder_def order_for_course_def Let_def
        split: option.splits sum.splits)

text \<open>
  C9 at concrete requests of user 42, who holds course 7: ordering course 7 is refused as
  already purchased, also when a no-break space precedes the digit; ordering course 8,
  which does not exist, is refused as not found, and ordering \<^verbatim>\<open>abc\<close> as an invalid
  course id; the state is the same after each.
\<close>

theorem purchase_order_rejections_witness:
  "createPurchaseOrder demo_env 500 (Fin 42) ''7'' stuck_state
     = (Inl (HttpError ''Course already purchased'' 400), stuck_state)
   \<and> createPurchaseOrder demo_env 500 (Fin 42) [CHR 0xA0, CHR ''7''] stuck_state
     = (Inl (HttpError ''Course already purchased'' 400), stuck_state)
   \<and> createPurchaseOrder demo_env 500 (Fin 42) ''8'' stuck_state
     = (Inl (HttpError ''Course not found'' 404), stuck_state)
   \<and> createPurchaseOrder demo_env 500 (Fin 42) ''abc'' stuck_state
     = (Inl (HttpError ''Invalid course ID'' 400), stuck_state)"
proof -
  let ?meta = "\<lparr>title = ''Course 7'', price = 1999 / 100, meta_currency = None\<rparr>"
  have n: "parseInt10 ''7'' = Fin 7" "parseInt10 [CHR 0xA0, CHR ''7''] = Fin 7"
    "parseInt10 ''8'' = Fin 8" "parseInt10 ''abc'' = NaN"
    by (simp_all add: parse_defs)
  have a: "select_user_course (Fin 42) (Fin 7) stuck_state \<noteq> []
        \<and> \<not> falsy_num (Fin 7)
        \<and> stat_course_dir demo_env (Fin 7)
        \<and> loadCourseMetadata demo_env (Fin 7) = Some ?meta
        \<and> resolvePaypalCurrency demo_env (meta_currency ?meta) = Inr ''USD''"
    by (simp add: demo_currency) (simp add: select_user_course_def stuck_state_def falsy_num_def demo_env_def)
  have b: "\<not> falsy_num (Fin 8)
        \<and> (\<not> stat_course_dir demo_env (Fin 8) \<or> loadCourseMetadata demo_env (Fin 8) = None)"
    by (simp add: falsy_num_def demo_env_def)
  have c: "falsy_num NaN"
    by (simp add: falsy_num_def)
  from purchase_order_rejections [of "Fin 42" "Fin 7" stuck_state demo_env 500 ?meta "''USD''" "''7''"]
    purchase_order_rejections [of "Fin 42" "Fin 7" stuck_state demo_env 500 ?meta "''USD''" "[CHR 0xA0, CHR ''7'']"]
    purchase_order_rejections [of "Fin 42" "Fin 8" stuck_state demo_env 500 _ _ "''8''"]
    purchase_order_rejections [of "Fin 42" NaN stuck_state demo_env 500 _ _ "''abc''"]
    a b c
  show ?thesis by (simp only: n) blast
qed

end
